theory Spec2Isabelle
  imports Complex_Main
begin

section \<open>Conventions of the embedding\<close>

text \<open>
  The TypeScript sources compute on JavaScript numbers. The embedding reads a
  \<^verbatim>\<open>number\<close> as a real and, with the one exception below, the comparisons, sums,
  products and quotients of the engine and of the scheduler as the exact ones: NaN, the
  infinities and the rounding of IEEE doubles are not modelled there. An optional field
  (\<^verbatim>\<open>f?: T\<close>) is a value of type \<open>T option\<close>; \<^verbatim>\<open>x ?? d\<close> is
  \<open>case x of None \<Rightarrow> d | Some v \<Rightarrow> v\<close>. The wall clock (\<^verbatim>\<open>Date.now()\<close>) is an
  explicit argument \<open>now\<close>, in milliseconds, of each function that reads it.
\<close>

definition Math_round :: "real \<Rightarrow> real" where
  \<comment> \<open>\<^verbatim>\<open>Math.round\<close>: the nearest integer, a tie going up.\<close>
  "Math_round x = of_int \<lfloor>x + 1 / 2\<rfloor>"

definition Math_floor :: "real \<Rightarrow> real" where
  "Math_floor x = of_int \<lfloor>x\<rfloor>"

subsection \<open>Double arithmetic\<close>

text \<open>
  The exception is the elapsed-days computation of the scheduler, which subtracts a
  product from the clock reading and the difference from the clock reading again: there
  the rounding decides the result. Each operation of that computation is the exact one
  followed by \<open>fl\<close>, the rounding of a real to the nearest number with a significand of
  53 bits, a tie going to the even significand. The exponent is not bounded: overflow
  and subnormal numbers are not modelled.
\<close>

definition round_even :: "real \<Rightarrow> int" where
  "round_even r =
     (let f = \<lfloor>r\<rfloor>; d = r - of_int f
      in if d < 1 / 2 then f else if d > 1 / 2 then f + 1
         else if even f then f else f + 1)"

definition bexp :: "real \<Rightarrow> int" where
  \<comment> \<open>the binary exponent of a number other than 0\<close>
  "bexp x = \<lfloor>log 2 \<bar>x\<bar>\<rfloor>"

definition fl :: "real \<Rightarrow> real" where
  "fl x =
     (if x = 0 then 0
      else 2 powr of_int (bexp x - 52)
           * of_int (round_even (x / 2 powr of_int (bexp x - 52))))"

definition fmul :: "real \<Rightarrow> real \<Rightarrow> real" where
  "fmul x y = fl (x * y)"

definition fsub :: "real \<Rightarrow> real \<Rightarrow> real" where
  "fsub x y = fl (x - y)"

definition fdiv :: "real \<Rightarrow> real \<Rightarrow> real" where
  "fdiv x y = fl (x / y)"

section \<open>Spaced-repetition scheduler (fsrs-service.ts, fsrs types)\<close>

datatype FSRSCardState = New | Learning | Review | Relearning

record FSRSState =
  stability :: real
  difficulty :: real
  elapsedDays :: real
  scheduledDays :: real
  reps :: real
  lapses :: real
  state :: FSRSCardState

text \<open>
  \<^verbatim>\<open>ReviewInput.rating\<close> is typed as a grade 1..4; \<^verbatim>\<open>applyFSRS\<close> also accepts the
  names of the grades, which it converts first.
\<close>

datatype rating_input = RatingName string | RatingNumber real

definition rating_value :: "rating_input \<Rightarrow> real" where
  "rating_value r =
     (case r of
        RatingName s \<Rightarrow>
          (if s = ''again'' then 1 else if s = ''hard'' then 2
           else if s = ''good'' then 3 else 4)
      | RatingNumber n \<Rightarrow> n)"

definition day_ms :: real where
  \<comment> \<open>\<^verbatim>\<open>(24 * 60 * 60 * 1000)\<close>, exact in doubles\<close>
  "day_ms = 24 * 60 * 60 * 1000"

definition interval_ms :: "real \<Rightarrow> real" where
  \<comment> \<open>\<^verbatim>\<open>fsrsState.scheduledDays * 24 * 60 * 60 * 1000\<close>, multiplied from the left\<close>
  "interval_ms days = fmul (fmul (fmul (fmul days 24) 60) 60) 1000"

text \<open>
  \<^verbatim>\<open>applyFSRS\<close> works on a copy \<^verbatim>\<open>newFsrs\<close> of the prior state. Its two
  rating branches are \<open>again_update\<close> (\<^verbatim>\<open>rating === 1\<close>) and \<open>graded_update\<close>
  (hard, good or easy); each assignment of a branch reads, of the fields written in the
  branch, only the one it writes, so the assignments make one record update.
\<close>

definition again_update :: "FSRSState \<Rightarrow> FSRSState" where
  "again_update newFsrs =
     newFsrs\<lparr>lapses := lapses newFsrs + 1,
              difficulty := min 10 (difficulty newFsrs + 0.5),
              stability := max 0.1 (stability newFsrs * 0.5),
              state := Relearning\<rparr>"

definition graded_update :: "real \<Rightarrow> FSRSState \<Rightarrow> FSRSState" where
  "graded_update rating newFsrs =
     (let stabilityMultiplier = 1 + (rating - 2) * 0.5;
          newFsrs = newFsrs\<lparr>reps := reps newFsrs + 1,
                      stability := max 0.1 (stability newFsrs * stabilityMultiplier),
                      difficulty := max 1 (min 10 (difficulty newFsrs - 0.1 * (rating - 2)))\<rparr>
      in if stability newFsrs < 1 then newFsrs\<lparr>state := Learning\<rparr>
         else if state newFsrs = New \<or> state newFsrs = Learning
         then newFsrs\<lparr>state := Review\<rparr>
         else newFsrs)"

definition applyFSRS :: "real \<Rightarrow> FSRSState \<Rightarrow> rating_input \<Rightarrow> FSRSState" where
  "applyFSRS now fsrsState review_rating =
     (let rating = rating_value review_rating;
          lastReviewTime =
            (if reps fsrsState > 0 then fsub now (interval_ms (scheduledDays fsrsState))
             else now);
          newFsrs = fsrsState\<lparr>elapsedDays :=
                      Math_floor (fdiv (fsub now lastReviewTime) day_ms)\<rparr>;
          newFsrs = (if rating = 1 then again_update newFsrs else graded_update rating newFsrs)
      in newFsrs\<lparr>scheduledDays := max 1 (Math_round (stability newFsrs))\<rparr>)"

text \<open>
  \<^verbatim>\<open>FSRSService\<close>: of its fields only the two milestone settings are read by
  \<^verbatim>\<open>detectMilestone\<close>; the constructor defaults them to 0.8 and 10.
\<close>

record FSRSServiceOptions =
  opt_masteryThreshold :: "real option"
  opt_periodicMilestoneInterval :: "real option"

record FSRSService =
  masteryThreshold :: real
  periodicMilestoneInterval :: real

definition new_FSRSService :: "FSRSServiceOptions \<Rightarrow> FSRSService" where
  "new_FSRSService options =
     \<lparr>masteryThreshold =
        (case opt_masteryThreshold options of None \<Rightarrow> 0.8 | Some t \<Rightarrow> t),
      periodicMilestoneInterval =
        (case opt_periodicMilestoneInterval options of None \<Rightarrow> 10 | Some i \<Rightarrow> i)\<rparr>"

definition js_trunc :: "real \<Rightarrow> int" where
  "js_trunc q = (if 0 \<le> q then \<lfloor>q\<rfloor> else \<lceil>q\<rceil>)"

definition js_rem :: "real \<Rightarrow> real \<Rightarrow> real option" where
  \<comment> \<open>\<^verbatim>\<open>x % y\<close>: the remainder of the truncated division; NaN (here \<open>None\<close>) for \<open>y = 0\<close>.\<close>
  "js_rem x y = (if y = 0 then None else Some (x - y * of_int (js_trunc (x / y))))"

datatype milestone = FirstReview | MasteryThreshold | StateTransition | Periodic

definition detectMilestone ::
  "FSRSService \<Rightarrow> bool \<Rightarrow> real \<Rightarrow> real \<Rightarrow> FSRSCardState \<Rightarrow> FSRSCardState \<Rightarrow> real
     \<Rightarrow> milestone option" where
  "detectMilestone this isFirstReview previousMastery newMastery previousState newState
       reviewCount =
     (if isFirstReview then Some FirstReview
      else if (previousMastery < masteryThreshold this \<and> newMastery \<ge> masteryThreshold this)
              \<or> (previousMastery < 1 \<and> newMastery \<ge> 1)
      then Some MasteryThreshold
      else if previousState \<noteq> newState \<and> (newState = Review \<or> newState = Learning)
      then Some StateTransition
      else if js_rem reviewCount (periodicMilestoneInterval this) = Some 0
      then Some Periodic
      else None)"

text \<open>
  \<^verbatim>\<open>LearnerState\<close> and \<^verbatim>\<open>calculateMastery\<close> (fsrs types). Dates are
  milliseconds since the epoch; \<^verbatim>\<open>activityMastery\<close> is an object, read only through
  the number of its keys.
\<close>

record ActivityMastery =
  am_attempts :: real
  am_correct :: real
  am_lastAttempt :: real
  am_avgResponseTime :: real





section \<open>Course data (cmi5-core types.ts)\<close>

datatype MoveOn = MoveOnPassed | MoveOnCompleted | MoveOnCompletedAndPassed | MoveOnNotApplicable

record CMI5Objective =
  obj_id :: string
  obj_description :: "string option"
  obj_masteryScore :: "real option"
  obj_isPrimary :: "bool option"
  obj_nodeId :: "string option"
  obj_kubitId :: "string option"

record CMI5CompletionCriteria =
  cc_masteryScore :: "real option"
  cc_masteryPercentage :: "real option"
  cc_minMasteredCount :: "real option"
  cc_requireAllContent :: "bool option"
  cc_requireAllExercises :: "bool option"

text \<open>The launch parameters of a unit are not read by the engine and are left out.\<close>

record CMI5AssignableUnit =
  au_id :: string
  au_title :: string
  au_launchUrl :: string
  au_masteryScore :: "real option"
  au_moveOn :: "MoveOn option"
  au_objectives :: "CMI5Objective list"
  au_prerequisites :: "string list option"
  au_completionCriteria :: "CMI5CompletionCriteria option"
  au_order :: "real option"

record CMI5Course =
  course_id :: string
  course_title :: string
  course_description :: "string option"
  assignableUnits :: "CMI5AssignableUnit list"

text \<open>
  \<^verbatim>\<open>CMI5ObjectiveState\<close> declares \<^verbatim>\<open>mastery\<close>, \<^verbatim>\<open>attempts\<close> and
  \<^verbatim>\<open>satisfied\<close> as required; the engine reads all three through \<^verbatim>\<open>??\<close>, so a
  stored record may lack them here.
\<close>

record CMI5ObjectiveState =
  os_objectiveId :: string
  os_nodeId :: "string option"
  os_kubitId :: "string option"
  os_mastery :: "real option"
  os_lastAttempted :: string
  os_attempts :: "real option"
  os_satisfied :: "bool option"

datatype LaunchMode = Normal | Browse | ReviewMode

record LessonProgress =
  currentLesson :: "string option"
  completedLessons :: "string list"
  timeSpent :: real

record CMI5State =
  registration :: string
  launchMode :: LaunchMode
  objectiveStates :: "string \<rightharpoonup> CMI5ObjectiveState"
  progress :: LessonProgress
  completed :: bool
  completedAt :: "string option"

section \<open>Learning engine (cmi5-engine engine.ts)\<close>

datatype LessonStatus = Locked | Available | InProgress | Completed | Passed
datatype PrerequisitePolicy = ByCompletion | ByMoveOn
datatype MissingPrerequisiteBehavior = Ignore | Lock

record LessonSignal =
  contentCompleted :: "bool option"
  exercisesCompleted :: "bool option"

record CMI5LearningEngineOptions =
  o_defaultMasteryScore :: "real option"
  o_prerequisitePolicy :: "PrerequisitePolicy option"
  o_missingPrerequisiteBehavior :: "MissingPrerequisiteBehavior option"

record EngineOptions =
  defaultMasteryScore :: real
  prerequisitePolicy :: PrerequisitePolicy
  missingPrerequisiteBehavior :: MissingPrerequisiteBehavior

record CMI5LearningEngineProgress =
  cmi5State :: "CMI5State option"
  lessonSignals :: "(string \<rightharpoonup> LessonSignal) option"

datatype ProgressSource = SourceCmi5 | SourceNone

record ObjectiveProgress =
  op_id :: string
  op_nodeId :: "string option"
  op_kubitId :: "string option"
  op_mastery :: real
  op_masteryScore :: real
  op_satisfied :: bool
  op_attempts :: real
  op_source :: ProgressSource

record PrerequisiteFacts =
  ids :: "string list"
  unmetIds :: "string list"
  missingIds :: "string list"
  met :: bool

record ObjectiveFacts =
  total :: nat
  mastered :: nat
  masteryAverage :: real
  details :: "ObjectiveProgress list"

record CompletionFacts =
  isComplete :: bool
  criteria :: "CMI5CompletionCriteria option"
  fromState :: bool
  requiresContent :: bool
  requiresExercises :: bool

record PassFacts =
  isPassed :: bool
  pass_masteryScore :: "real option"
  averageMastery :: real

record MoveOnFacts =
  mo_criteria :: MoveOn
  isSatisfied :: bool

record AUEvaluation =
  auId :: string
  title :: string
  ev_order :: real
  status :: LessonStatus
  started :: bool
  prerequisites :: PrerequisiteFacts
  objectives :: ObjectiveFacts
  completion :: CompletionFacts
  pass :: PassFacts
  moveOn :: MoveOnFacts

record AUDescriptor =
  d_id :: string
  d_title :: string
  d_order :: real
  d_prerequisites :: "string list"
  d_objectives :: "CMI5Objective list"
  d_masteryScore :: "real option"
  d_moveOn :: "MoveOn option"
  d_completionCriteria :: "CMI5CompletionCriteria option"
  d_au :: CMI5AssignableUnit

subsection \<open>JavaScript maps\<close>

text \<open>
  A \<^verbatim>\<open>Map\<close> keeps its entries in insertion order: \<^verbatim>\<open>set\<close> on a key already
  present replaces its value where it stands, on a new key it appends the entry.
\<close>

type_synonym ('k, 'v) js_map = "('k \<times> 'v) list"

fun Map_set :: "'k \<Rightarrow> 'v \<Rightarrow> ('k, 'v) js_map \<Rightarrow> ('k, 'v) js_map" where
  "Map_set k v [] = [(k, v)]"
| "Map_set k v ((k', v') # m) = (if k = k' then (k, v) # m else (k', v') # Map_set k v m)"

definition Map_get :: "('k, 'v) js_map \<Rightarrow> 'k \<Rightarrow> 'v option" where
  "Map_get m k = map_of m k"

definition Map_values :: "('k, 'v) js_map \<Rightarrow> 'v list" where
  "Map_values m = map snd m"

record CourseIndex =
  courseId :: string
  courseTitle :: string
  aus :: "(string, AUDescriptor) js_map"

definition descriptor :: "CMI5AssignableUnit \<Rightarrow> AUDescriptor" where
  "descriptor au =
     \<lparr>d_id = au_id au,
      d_title = au_title au,
      d_order = (case au_order au of None \<Rightarrow> 0 | Some n \<Rightarrow> n),
      d_prerequisites = (case au_prerequisites au of None \<Rightarrow> [] | Some ps \<Rightarrow> ps),
      d_objectives = au_objectives au,
      d_masteryScore = au_masteryScore au,
      d_moveOn = au_moveOn au,
      d_completionCriteria = au_completionCriteria au,
      d_au = au\<rparr>"

definition buildCourseIndex :: "CMI5Course \<Rightarrow> CourseIndex" where
  "buildCourseIndex course =
     \<lparr>courseId = course_id course,
      courseTitle = course_title course,
      aus = fold (\<lambda>au aus. Map_set (au_id au) (descriptor au) aus) (assignableUnits course) []\<rparr>"


subsection \<open>Resolving the state of an objective\<close>

text \<open>
  \<^verbatim>\<open>if (objective.nodeId) { ... objectiveStates.get(objective.nodeId) ... }\<close>: the
  test is JavaScript truthiness, so an alternate key that is undefined or the empty
  string is not looked up.
\<close>

definition lookup_alternate ::
  "string option \<Rightarrow> (string \<rightharpoonup> CMI5ObjectiveState) \<Rightarrow> CMI5ObjectiveState option" where
  "lookup_alternate key states =
     (case key of None \<Rightarrow> None | Some k \<Rightarrow> if k = [] then None else states k)"

definition resolveObjectiveState ::
  "CMI5Objective \<Rightarrow> (string \<rightharpoonup> CMI5ObjectiveState) option \<Rightarrow> real
     \<Rightarrow> CMI5ObjectiveState option" where
  "resolveObjectiveState objective objStates masteryScore =
     (case objStates of
        None \<Rightarrow> None
      | Some states \<Rightarrow>
          (case states (obj_id objective) of
             Some directState \<Rightarrow> Some directState
           | None \<Rightarrow>
               (case lookup_alternate (obj_nodeId objective) states of
                  Some nodeState \<Rightarrow> Some nodeState
                | None \<Rightarrow>
                    (case lookup_alternate (obj_kubitId objective) states of
                       Some kubitState \<Rightarrow> Some kubitState
                     | None \<Rightarrow> None))))"

definition effectiveMasteryScore :: "EngineOptions \<Rightarrow> AUDescriptor \<Rightarrow> CMI5Objective \<Rightarrow> real" where
  \<comment> \<open>\<^verbatim>\<open>objective.masteryScore ?? auDescriptor.masteryScore ?? this.options.defaultMasteryScore\<close>\<close>
  "effectiveMasteryScore opts auDescriptor objective =
     (case obj_masteryScore objective of
        Some m \<Rightarrow> m
      | None \<Rightarrow>
          (case d_masteryScore auDescriptor of
             Some m \<Rightarrow> m
           | None \<Rightarrow> defaultMasteryScore opts))"

definition objectiveProgress ::
  "EngineOptions \<Rightarrow> (string \<rightharpoonup> CMI5ObjectiveState) option \<Rightarrow> AUDescriptor \<Rightarrow> CMI5Objective
     \<Rightarrow> ObjectiveProgress" where
  \<comment> \<open>the callback of \<^verbatim>\<open>auDescriptor.objectives.map\<close> in the first pass\<close>
  "objectiveProgress opts objStates auDescriptor objective =
     (let masteryScore = effectiveMasteryScore opts auDescriptor objective;
          objState = resolveObjectiveState objective objStates masteryScore;
          mastery = (case objState of None \<Rightarrow> 0
                     | Some st \<Rightarrow> (case os_mastery st of None \<Rightarrow> 0 | Some m \<Rightarrow> m));
          satisfied = (case objState of None \<Rightarrow> mastery \<ge> masteryScore
                       | Some st \<Rightarrow> (case os_satisfied st of None \<Rightarrow> mastery \<ge> masteryScore
                                    | Some b \<Rightarrow> b));
          attempts = (case objState of None \<Rightarrow> 0
                      | Some st \<Rightarrow> (case os_attempts st of None \<Rightarrow> 0 | Some a \<Rightarrow> a));
          source = (case objState of None \<Rightarrow> SourceNone | Some st \<Rightarrow> SourceCmi5)
      in \<lparr>op_id = obj_id objective,
          op_nodeId = obj_nodeId objective,
          op_kubitId = obj_kubitId objective,
          op_mastery = mastery,
          op_masteryScore = masteryScore,
          op_satisfied = satisfied,
          op_attempts = attempts,
          op_source = source\<rparr>)"

subsection \<open>Aggregating the statuses of the units\<close>

record StatusCounts =
  c_locked :: nat
  c_available :: nat
  c_in_progress :: nat
  c_completed :: nat
  c_passed :: nat

fun count_status :: "LessonStatus \<Rightarrow> StatusCounts \<Rightarrow> StatusCounts" where
  "count_status Locked counts = counts\<lparr>c_locked := c_locked counts + 1\<rparr>"
| "count_status Available counts = counts\<lparr>c_available := c_available counts + 1\<rparr>"
| "count_status InProgress counts = counts\<lparr>c_in_progress := c_in_progress counts + 1\<rparr>"
| "count_status Completed counts = counts\<lparr>c_completed := c_completed counts + 1\<rparr>"
| "count_status Passed counts = counts\<lparr>c_passed := c_passed counts + 1\<rparr>"

definition aggregateStatus :: "LessonStatus list \<Rightarrow> LessonStatus" where
  "aggregateStatus statuses =
     (if length statuses = 0 then Locked
      else
        (let counts = fold count_status statuses
               \<lparr>c_locked = 0, c_available = 0, c_in_progress = 0, c_completed = 0,
                c_passed = 0\<rparr>
         in if c_locked counts = length statuses then Locked
            else if c_passed counts = length statuses then Passed
            else if c_completed counts + c_passed counts = length statuses then Completed
            else if c_in_progress counts > 0
                    \<or> (c_completed counts + c_passed counts > 0
                        \<and> (c_locked counts > 0 \<or> c_available counts > 0))
            then InProgress
            else if c_available counts > 0 then Available
            else Locked))"

subsection \<open>Completion criteria\<close>

record CompletionResult =
  cr_isComplete :: bool
  cr_requiresContent :: bool
  cr_requiresExercises :: bool

definition truthy :: "bool option \<Rightarrow> bool" where
  \<comment> \<open>\<^verbatim>\<open>Boolean(x)\<close> of an optional flag\<close>
  "truthy b = (case b of None \<Rightarrow> False | Some v \<Rightarrow> v)"

definition signal_content :: "LessonSignal option \<Rightarrow> bool" where
  \<comment> \<open>\<^verbatim>\<open>Boolean(lessonSignals?.contentCompleted)\<close>\<close>
  "signal_content sig = (case sig of None \<Rightarrow> False | Some s \<Rightarrow> truthy (contentCompleted s))"

definition signal_exercises :: "LessonSignal option \<Rightarrow> bool" where
  \<comment> \<open>\<^verbatim>\<open>Boolean(lessonSignals?.exercisesCompleted)\<close>\<close>
  "signal_exercises sig = (case sig of None \<Rightarrow> False | Some s \<Rightarrow> truthy (exercisesCompleted s))"

definition criterion :: "CMI5CompletionCriteria option \<Rightarrow> (CMI5CompletionCriteria \<Rightarrow> 'a option)
    \<Rightarrow> 'a option" where
  \<comment> \<open>\<^verbatim>\<open>criteria?.field\<close>\<close>
  "criterion crit field = (case crit of None \<Rightarrow> None | Some c \<Rightarrow> field c)"

definition completion_checks ::
  "CMI5CompletionCriteria option \<Rightarrow> real \<Rightarrow> nat \<Rightarrow> nat \<Rightarrow> LessonSignal option \<Rightarrow> bool list" where
  \<comment> \<open>the array \<^verbatim>\<open>checks\<close> after the five conditional pushes\<close>
  "completion_checks crit objectiveMasteryAverage objectiveMasteredCount objectiveTotal sig =
     (let requiresContent = truthy (criterion crit cc_requireAllContent);
          requiresExercises = truthy (criterion crit cc_requireAllExercises);
          checks = [];
          checks = (case criterion crit cc_masteryScore of
                      Some ms \<Rightarrow> checks @ [objectiveMasteryAverage \<ge> ms]
                    | None \<Rightarrow> checks);
          checks = (case criterion crit cc_masteryPercentage of
                      Some mp \<Rightarrow>
                        if objectiveTotal > 0
                        then checks @ [real objectiveMasteredCount / real objectiveTotal \<ge> mp]
                        else checks
                    | None \<Rightarrow> checks);
          checks = (case criterion crit cc_minMasteredCount of
                      Some mc \<Rightarrow> checks @ [real objectiveMasteredCount \<ge> mc]
                    | None \<Rightarrow> checks);
          checks = (if requiresContent then checks @ [signal_content sig] else checks);
          checks = (if requiresExercises then checks @ [signal_exercises sig] else checks)
      in checks)"

definition evaluateCompletionCriteria ::
  "CMI5CompletionCriteria option \<Rightarrow> real \<Rightarrow> nat \<Rightarrow> nat \<Rightarrow> LessonSignal option \<Rightarrow> real
     \<Rightarrow> CompletionResult" where
  "evaluateCompletionCriteria crit objectiveMasteryAverage objectiveMasteredCount objectiveTotal
       sig defaultScore =
     (let requiresContent = truthy (criterion crit cc_requireAllContent);
          requiresExercises = truthy (criterion crit cc_requireAllExercises);
          checks = completion_checks crit objectiveMasteryAverage objectiveMasteredCount
                     objectiveTotal sig
      in if length checks = 0 then
           (if objectiveTotal > 0 then
              \<lparr>cr_isComplete = (objectiveMasteredCount = objectiveTotal),
               cr_requiresContent = requiresContent,
               cr_requiresExercises = requiresExercises\<rparr>
            else
              (let signalComplete = (signal_content sig \<or> signal_exercises sig)
               in \<lparr>cr_isComplete = (if signalComplete then True else False),
                   cr_requiresContent = requiresContent,
                   cr_requiresExercises = requiresExercises\<rparr>))
         else
           \<lparr>cr_isComplete = list_all (\<lambda>b. b) checks,
            cr_requiresContent = requiresContent,
            cr_requiresExercises = requiresExercises\<rparr>)"


subsection \<open>The engine and its evaluation\<close>

text \<open>
  The constructor also accepts a course tree, which it flattens first
  (\<^verbatim>\<open>flattenCMI5Tree\<close>); the engine itself only ever sees the flat course, the
  argument here.
\<close>

record CMI5LearningEngine =
  index :: CourseIndex
  options :: EngineOptions

definition new_CMI5LearningEngine ::
  "CMI5Course \<Rightarrow> CMI5LearningEngineOptions \<Rightarrow> CMI5LearningEngine" where
  "new_CMI5LearningEngine flatCourse opts =
     \<lparr>index = buildCourseIndex flatCourse,
      options =
        \<lparr>defaultMasteryScore =
           (case o_defaultMasteryScore opts of None \<Rightarrow> 0.8 | Some m \<Rightarrow> m),
         prerequisitePolicy =
           (case o_prerequisitePolicy opts of None \<Rightarrow> ByCompletion | Some p \<Rightarrow> p),
         missingPrerequisiteBehavior =
           (case o_missingPrerequisiteBehavior opts of None \<Rightarrow> Ignore | Some b \<Rightarrow> b)\<rparr>\<rparr>"

definition default_options :: CMI5LearningEngineOptions where
  \<comment> \<open>\<^verbatim>\<open>options = {}\<close>\<close>
  "default_options =
     \<lparr>o_defaultMasteryScore = None, o_prerequisitePolicy = None,
      o_missingPrerequisiteBehavior = None\<rparr>"

definition empty_progress :: CMI5LearningEngineProgress where
  \<comment> \<open>\<^verbatim>\<open>progress = {}\<close>\<close>
  "empty_progress = \<lparr>cmi5State = None, lessonSignals = None\<rparr>"

definition masteryAverageOf :: "ObjectiveProgress list \<Rightarrow> real" where
  \<comment> \<open>\<^verbatim>\<open>masteryAverage\<close>: the \<^verbatim>\<open>reduce\<close> sum of the masteries over the total, 0 without
      objectives\<close>
  "masteryAverageOf objs =
     (if length objs > 0
      then foldl (\<lambda>sum objective. sum + op_mastery objective) 0 objs / real (length objs)
      else 0)"

definition passThresholdOf :: "EngineOptions \<Rightarrow> AUDescriptor \<Rightarrow> real" where
  \<comment> \<open>\<^verbatim>\<open>completionCriteria?.masteryScore ?? auDescriptor.masteryScore ??
      this.options.defaultMasteryScore\<close>\<close>
  "passThresholdOf opts auDescriptor =
     (case criterion (d_completionCriteria auDescriptor) cc_masteryScore of
        Some m \<Rightarrow> m
      | None \<Rightarrow>
          (case d_masteryScore auDescriptor of
             Some m \<Rightarrow> m
           | None \<Rightarrow> defaultMasteryScore opts))"

definition first_pass_au ::
  "EngineOptions \<Rightarrow> (string \<rightharpoonup> CMI5ObjectiveState) option \<Rightarrow> string list \<Rightarrow> string option
     \<Rightarrow> (string \<rightharpoonup> LessonSignal) \<Rightarrow> AUDescriptor \<Rightarrow> AUEvaluation" where
  \<comment> \<open>the body of the first loop: the evaluation stored for one unit\<close>
  "first_pass_au opts objStates completedAUs currentAU signals auDescriptor =
     (let objs = map (objectiveProgress opts objStates auDescriptor) (d_objectives auDescriptor);
          objectiveTotal = length objs;
          objectiveMasteredCount = length (filter op_satisfied objs);
          avg = masteryAverageOf objs;
          completionCriteria = d_completionCriteria auDescriptor;
          completionResult =
            evaluateCompletionCriteria completionCriteria avg objectiveMasteredCount
              objectiveTotal (signals (d_id auDescriptor)) (defaultMasteryScore opts);
          completedByState = (d_id auDescriptor \<in> set completedAUs);
          complete = (if completedByState then True else cr_isComplete completionResult);
          passThreshold = passThresholdOf opts auDescriptor;
          passed = (if objectiveTotal > 0 then avg \<ge> passThreshold else False);
          hasStarted =
            (completedByState
             \<or> currentAU = Some (d_id auDescriptor)
             \<or> list_ex (\<lambda>objective. op_attempts objective > 0) objs
             \<or> (signal_content (signals (d_id auDescriptor))
                 \<or> signal_exercises (signals (d_id auDescriptor))));
          moveOnCriteria =
            (case d_moveOn auDescriptor of None \<Rightarrow> MoveOnNotApplicable | Some c \<Rightarrow> c);
          moveOnSatisfied =
            (if moveOnCriteria = MoveOnNotApplicable then True
             else if moveOnCriteria = MoveOnCompleted then complete
             else if moveOnCriteria = MoveOnPassed then passed
             else complete \<and> passed)
      in \<lparr>auId = d_id auDescriptor,
          title = d_title auDescriptor,
          ev_order = d_order auDescriptor,
          status = Available,
          started = hasStarted,
          prerequisites =
            \<lparr>ids = d_prerequisites auDescriptor, unmetIds = [], missingIds = [], met = True\<rparr>,
          objectives =
            \<lparr>total = objectiveTotal, mastered = objectiveMasteredCount,
             masteryAverage = avg, details = objs\<rparr>,
          completion =
            \<lparr>isComplete = complete, criteria = completionCriteria,
             fromState = completedByState,
             requiresContent = cr_requiresContent completionResult,
             requiresExercises = cr_requiresExercises completionResult\<rparr>,
          pass = \<lparr>isPassed = passed, pass_masteryScore = Some passThreshold,
                  averageMastery = avg\<rparr>,
          moveOn = \<lparr>mo_criteria = moveOnCriteria, isSatisfied = moveOnSatisfied\<rparr>\<rparr>)"

definition first_pass ::
  "EngineOptions \<Rightarrow> (string \<rightharpoonup> CMI5ObjectiveState) option \<Rightarrow> string list \<Rightarrow> string option
     \<Rightarrow> (string \<rightharpoonup> LessonSignal) \<Rightarrow> AUDescriptor list
     \<Rightarrow> (string, AUEvaluation) js_map" where
  "first_pass opts objStates completedAUs currentAU signals descriptors =
     fold (\<lambda>auDescriptor auEvaluations.
             Map_set (d_id auDescriptor)
               (first_pass_au opts objStates completedAUs currentAU signals auDescriptor)
               auEvaluations)
       descriptors []"

definition scan_prerequisite ::
  "EngineOptions \<Rightarrow> (string, AUEvaluation) js_map \<Rightarrow> string
     \<Rightarrow> string list \<times> string list \<Rightarrow> string list \<times> string list" where
  \<comment> \<open>one round of the loop over \<^verbatim>\<open>auDescriptor.prerequisites\<close>, on the pair
      (\<^verbatim>\<open>unmetIds\<close>, \<^verbatim>\<open>missingIds\<close>)\<close>
  "scan_prerequisite opts auEvaluations prereqId acc =
     (case acc of (unmet, missing) \<Rightarrow>
        (case Map_get auEvaluations prereqId of
           None \<Rightarrow>
             (if missingPrerequisiteBehavior opts = Lock then unmet @ [prereqId] else unmet,
              missing @ [prereqId])
         | Some prereqEvaluation \<Rightarrow>
             (let satisfied =
                    (if prerequisitePolicy opts = ByMoveOn
                     then isSatisfied (moveOn prereqEvaluation)
                     else isComplete (completion prereqEvaluation))
              in if \<not> satisfied then (unmet @ [prereqId], missing) else (unmet, missing))))"

definition scan_prerequisites ::
  "EngineOptions \<Rightarrow> (string, AUEvaluation) js_map \<Rightarrow> string list
     \<Rightarrow> string list \<times> string list" where
  "scan_prerequisites opts auEvaluations prereqs =
     fold (scan_prerequisite opts auEvaluations) prereqs ([], [])"

definition derive_status :: "bool \<Rightarrow> AUEvaluation \<Rightarrow> LessonStatus" where
  "derive_status prerequisitesMet evaluation =
     (if \<not> prerequisitesMet then Locked
      else
        (let moveOnCriteria = mo_criteria (moveOn evaluation)
         in if moveOnCriteria = MoveOnPassed then
              (if isPassed (pass evaluation) then Passed
               else if started evaluation then InProgress else Available)
            else if moveOnCriteria = MoveOnCompletedAndPassed then
              (if isComplete (completion evaluation) \<and> isPassed (pass evaluation) then Passed
               else if started evaluation then InProgress else Available)
            else if isComplete (completion evaluation) then Completed
            else if started evaluation then InProgress
            else Available))"

definition finalize_au ::
  "EngineOptions \<Rightarrow> (string, AUEvaluation) js_map \<Rightarrow> AUDescriptor \<Rightarrow> AUEvaluation
     \<Rightarrow> AUEvaluation" where
  \<comment> \<open>the body of the second loop after its guard: the prerequisites of the unit are
      scanned, then \<^verbatim>\<open>status\<close> and \<^verbatim>\<open>prerequisites\<close> of its evaluation are assigned\<close>
  "finalize_au opts auEvaluations auDescriptor evaluation =
     (case scan_prerequisites opts auEvaluations (d_prerequisites auDescriptor) of
        (unmet, missing) \<Rightarrow>
          (let prerequisitesMet = (length unmet = 0);
               newStatus = derive_status prerequisitesMet evaluation
           in evaluation\<lparr>status := newStatus,
                          prerequisites :=
                            \<lparr>ids = d_prerequisites auDescriptor, unmetIds = unmet,
                             missingIds = missing, met = prerequisitesMet\<rparr>\<rparr>))"

definition second_pass_au ::
  "EngineOptions \<Rightarrow> AUDescriptor \<Rightarrow> (string, AUEvaluation) js_map
     \<Rightarrow> (string, AUEvaluation) js_map" where
  \<comment> \<open>one round of the second loop: the evaluation object of the unit is updated where
      it stands in the map\<close>
  "second_pass_au opts auDescriptor auEvaluations =
     (case Map_get auEvaluations (d_id auDescriptor) of
        None \<Rightarrow> auEvaluations
      | Some evaluation \<Rightarrow>
          Map_set (d_id auDescriptor)
            (finalize_au opts auEvaluations auDescriptor evaluation) auEvaluations)"

definition second_pass ::
  "EngineOptions \<Rightarrow> AUDescriptor list \<Rightarrow> (string, AUEvaluation) js_map
     \<Rightarrow> (string, AUEvaluation) js_map" where
  "second_pass opts descriptors auEvaluations =
     fold (second_pass_au opts) descriptors auEvaluations"

record CourseSummary =
  cs_id :: string
  cs_title :: string
  cs_status :: LessonStatus

record CMI5LearningEngineSnapshot =
  snap_aus :: "(string, AUEvaluation) js_map"
  snap_course :: CourseSummary

definition evaluate :: "CMI5LearningEngine \<Rightarrow> CMI5LearningEngineProgress
    \<Rightarrow> CMI5LearningEngineSnapshot" where
  "evaluate this prog =
     (let objStates = (case cmi5State prog of None \<Rightarrow> None
                       | Some st \<Rightarrow> Some (objectiveStates st));
          completedAUs = (case cmi5State prog of None \<Rightarrow> []
                          | Some st \<Rightarrow> completedLessons (progress st));
          currentAU = (case cmi5State prog of None \<Rightarrow> None
                       | Some st \<Rightarrow> currentLesson (progress st));
          signals = (case lessonSignals prog of None \<Rightarrow> Map.empty | Some m \<Rightarrow> m);
          descriptors = Map_values (aus (index this));
          auEvaluations =
            first_pass (options this) objStates completedAUs currentAU signals descriptors;
          auEvaluations = second_pass (options this) descriptors auEvaluations;
          auStatuses = map status (sort_key ev_order (Map_values auEvaluations));
          courseStatus = aggregateStatus auStatuses
      in \<lparr>snap_aus = auEvaluations,
          snap_course =
            \<lparr>cs_id = courseId (index this), cs_title = courseTitle (index this),
             cs_status = courseStatus\<rparr>\<rparr>)"


section \<open>Notions of the specification\<close>

text \<open>
  The definitions of this section follow the wording of the specification, not the
  code; the theorems below compare them with the functions above.
\<close>

subsection \<open>Scheduler\<close>

definition threshold_crossed :: "FSRSService \<Rightarrow> real \<Rightarrow> real \<Rightarrow> bool" where
  \<comment> \<open>mastery crosses the configured threshold upward, or crosses 1.0 upward\<close>
  "threshold_crossed this previousMastery newMastery \<longleftrightarrow>
     (previousMastery < masteryThreshold this \<and> masteryThreshold this \<le> newMastery)
     \<or> (previousMastery < 1 \<and> 1 \<le> newMastery)"

definition state_changed :: "FSRSCardState \<Rightarrow> FSRSCardState \<Rightarrow> bool" where
  \<comment> \<open>the lifecycle state changed and the new state is review or learning\<close>
  "state_changed previousState newState \<longleftrightarrow>
     previousState \<noteq> newState \<and> (newState = Review \<or> newState = Learning)"

definition exact_multiple :: "real \<Rightarrow> real \<Rightarrow> bool" where
  \<comment> \<open>the count is an exact multiple of the (non-zero) interval\<close>
  "exact_multiple n interval \<longleftrightarrow> interval \<noteq> 0 \<and> (\<exists>k::int. n = of_int k * interval)"






subsection \<open>Completion evaluator\<close>

text \<open>
  The five checks in the order of the specification; \<open>None\<close> stands for a check
  that is not constructed.
\<close>

definition constructed_checks ::
  "CMI5CompletionCriteria option \<Rightarrow> real \<Rightarrow> nat \<Rightarrow> nat \<Rightarrow> LessonSignal option
     \<Rightarrow> bool option list" where
  "constructed_checks crit avg masteredCount objectiveTotal sig =
     [map_option (\<lambda>ms. ms \<le> avg) (criterion crit cc_masteryScore),
      (if objectiveTotal > 0
       then map_option (\<lambda>mp. mp \<le> real masteredCount / real objectiveTotal)
              (criterion crit cc_masteryPercentage)
       else None),
      map_option (\<lambda>mc. mc \<le> real masteredCount) (criterion crit cc_minMasteredCount),
      (if criterion crit cc_requireAllContent = Some True
       then Some (signal_content sig) else None),
      (if criterion crit cc_requireAllExercises = Some True
       then Some (signal_exercises sig) else None)]"


subsection \<open>Mastery resolver\<close>

text \<open>An alternate key is present when it is set to a non-empty string.\<close>

definition alternate_key :: "string option \<Rightarrow> string list" where
  "alternate_key key = (case key of None \<Rightarrow> [] | Some k \<Rightarrow> if k = [] then [] else [k])"

definition lookup_order :: "CMI5Objective \<Rightarrow> string list" where
  \<comment> \<open>the exact id, then the primary alternate key, then the secondary one\<close>
  "lookup_order objective =
     obj_id objective # alternate_key (obj_nodeId objective)
       @ alternate_key (obj_kubitId objective)"

fun first_record ::
  "(string \<rightharpoonup> CMI5ObjectiveState) \<Rightarrow> string list \<Rightarrow> CMI5ObjectiveState option" where
  "first_record states [] = None"
| "first_record states (k # ks) =
     (case states k of Some r \<Rightarrow> Some r | None \<Rightarrow> first_record states ks)"

subsection \<open>Prerequisites\<close>

definition prerequisite_unmet ::
  "EngineOptions \<Rightarrow> (string, AUEvaluation) js_map \<Rightarrow> string \<Rightarrow> bool" where
  \<comment> \<open>a prerequisite id is unmet under the policy and the missing-prerequisite behaviour\<close>
  "prerequisite_unmet opts evaluations prereqId =
     (case Map_get evaluations prereqId of
        None \<Rightarrow> missingPrerequisiteBehavior opts = Lock
      | Some e \<Rightarrow>
          (if prerequisitePolicy opts = ByMoveOn
           then \<not> isSatisfied (moveOn e)
           else \<not> isComplete (completion e)))"

definition prerequisite_missing :: "(string, AUEvaluation) js_map \<Rightarrow> string \<Rightarrow> bool" where
  "prerequisite_missing evaluations prereqId \<longleftrightarrow> Map_get evaluations prereqId = None"


subsection \<open>The two passes, unit by unit\<close>

text \<open>
  The index built by the constructor has each unit id once, as the key of its own
  descriptor. The second pass reads, of the evaluation of a prerequisite, two flags
  only; \<open>facts_view\<close> is the map of evaluations reduced to them.
\<close>

definition index_ok :: "(string, AUDescriptor) js_map \<Rightarrow> bool" where
  "index_ok idx \<longleftrightarrow> distinct (map fst idx) \<and> list_all (\<lambda>(k, d). d_id d = k) idx"

definition facts :: "AUEvaluation \<Rightarrow> bool \<times> bool" where
  "facts e = (isComplete (completion e), isSatisfied (moveOn e))"

definition facts_view :: "(string, AUEvaluation) js_map \<Rightarrow> (string \<times> bool \<times> bool) list" where
  "facts_view E = map (\<lambda>(k, e). (k, facts e)) E"

definition completed_units :: "CMI5LearningEngineProgress \<Rightarrow> string list" where
  \<comment> \<open>the external completed-units list, \<^verbatim>\<open>completedAUs\<close>\<close>
  "completed_units prog =
     (case cmi5State prog of None \<Rightarrow> [] | Some st \<Rightarrow> completedLessons (progress st))"

definition pass1 ::
  "CMI5LearningEngine \<Rightarrow> CMI5LearningEngineProgress \<Rightarrow> AUDescriptor \<Rightarrow> AUEvaluation" where
  \<comment> \<open>the first-pass evaluation of a unit within \<open>evaluate\<close>\<close>
  "pass1 this prog =
     first_pass_au (options this)
       (case cmi5State prog of None \<Rightarrow> None | Some st \<Rightarrow> Some (objectiveStates st))
       (completed_units prog)
       (case cmi5State prog of None \<Rightarrow> None | Some st \<Rightarrow> currentLesson (progress st))
       (case lessonSignals prog of None \<Rightarrow> Map.empty | Some m \<Rightarrow> m)"

definition pass1_map ::
  "CMI5LearningEngine \<Rightarrow> CMI5LearningEngineProgress \<Rightarrow> (string, AUEvaluation) js_map" where
  "pass1_map this prog = map (\<lambda>(k, d). (k, pass1 this prog d)) (aus (index this))"

section \<open>Scenarios\<close>

text \<open>The scheduler state of the worked example of the specification.\<close>

definition s0 :: FSRSState where
  "s0 = \<lparr>stability = 2.5, difficulty = 5, elapsedDays = 0, scheduledDays = 3,
          reps = 3, lapses = 0, state = Review\<rparr>"

definition default_service :: FSRSService where
  "default_service =
     new_FSRSService \<lparr>opt_masteryThreshold = None, opt_periodicMilestoneInterval = None\<rparr>"


text \<open>
  A state whose interval is not a whole number of days, and the state after forty
  ratings \<^verbatim>\<open>easy\<close> of a new item (stability \<open>0.1 * 2 ^ 39\<close>).
\<close>

definition s25 :: FSRSState where
  "s25 = \<lparr>stability = 2.5, difficulty = 5, elapsedDays = 0, scheduledDays = 2.5,
           reps = 3, lapses = 0, state = Review\<rparr>"

definition s_long :: FSRSState where
  "s_long = \<lparr>stability = 54975581388.8, difficulty = 1, elapsedDays = 0,
              scheduledDays = 54975581389, reps = 40, lapses = 0, state = Review\<rparr>"

text \<open>
  An objective known under its secondary alternate key only, one with both alternate
  keys, and records stored without a satisfied flag.
\<close>

definition legacy_objective :: CMI5Objective where
  "legacy_objective =
     \<lparr>obj_id = ''obj-9'', obj_description = None, obj_masteryScore = None,
      obj_isPrimary = None, obj_nodeId = None, obj_kubitId = Some ''kubit-9''\<rparr>"

definition keyed_objective :: CMI5Objective where
  "keyed_objective =
     \<lparr>obj_id = ''obj-8'', obj_description = None, obj_masteryScore = Some 0.95,
      obj_isPrimary = None, obj_nodeId = Some ''node-8'', obj_kubitId = Some ''kubit-8''\<rparr>"

definition unflagged_state :: "string \<Rightarrow> real \<Rightarrow> real \<Rightarrow> CMI5ObjectiveState" where
  "unflagged_state i m a =
     \<lparr>os_objectiveId = i, os_nodeId = None, os_kubitId = None, os_mastery = Some m,
      os_lastAttempted = ''2024-01-01T00:00:00.000Z'', os_attempts = Some a,
      os_satisfied = None\<rparr>"

definition kubit9_record :: CMI5ObjectiveState where
  "kubit9_record = unflagged_state ''kubit-9'' 0.9 2"

definition kubit8_record :: CMI5ObjectiveState where
  "kubit8_record = unflagged_state ''kubit-8'' 0.5 1"

definition node8_record :: CMI5ObjectiveState where
  "node8_record = unflagged_state ''node-8'' 0.9 3"

text \<open>The three-unit course of \<^verbatim>\<open>engine.e2e.test.ts\<close>.\<close>

definition objective :: "string \<Rightarrow> string \<Rightarrow> string \<Rightarrow> CMI5Objective" where
  "objective i descr n =
     \<lparr>obj_id = i, obj_description = Some descr, obj_masteryScore = Some 0.8,
      obj_isPrimary = None, obj_nodeId = Some n, obj_kubitId = None\<rparr>"

definition no_criteria :: CMI5CompletionCriteria where
  "no_criteria =
     \<lparr>cc_masteryScore = None, cc_masteryPercentage = None, cc_minMasteredCount = None,
      cc_requireAllContent = None, cc_requireAllExercises = None\<rparr>"

definition au1 :: CMI5AssignableUnit where
  "au1 =
     \<lparr>au_id = ''au-1'', au_title = ''AU 1'', au_launchUrl = ''https://example.com/au-1'',
      au_masteryScore = None, au_moveOn = Some MoveOnCompletedAndPassed,
      au_objectives = [objective ''obj-1'' ''Master objective 1'' ''node-1'',
                       objective ''obj-2'' ''Master objective 2'' ''node-2''],
      au_prerequisites = None,
      au_completionCriteria = Some (no_criteria\<lparr>cc_masteryPercentage := Some 1\<rparr>),
      au_order = Some 1\<rparr>"

definition au2 :: CMI5AssignableUnit where
  "au2 =
     \<lparr>au_id = ''au-2'', au_title = ''AU 2'', au_launchUrl = ''https://example.com/au-2'',
      au_masteryScore = None, au_moveOn = Some MoveOnCompleted,
      au_objectives = [objective ''obj-3'' ''Master objective 3'' ''node-3''],
      au_prerequisites = Some [''au-1''],
      au_completionCriteria =
        Some (no_criteria\<lparr>cc_masteryPercentage := Some 1, cc_requireAllContent := Some True\<rparr>),
      au_order = Some 2\<rparr>"

definition au3 :: CMI5AssignableUnit where
  "au3 =
     \<lparr>au_id = ''au-3'', au_title = ''AU 3'', au_launchUrl = ''https://example.com/au-3'',
      au_masteryScore = None, au_moveOn = Some MoveOnCompleted,
      au_objectives = [objective ''obj-4'' ''Master objective 4'' ''node-4''],
      au_prerequisites = Some [''au-2''],
      au_completionCriteria = None,
      au_order = Some 3\<rparr>"

definition course3 :: CMI5Course where
  "course3 =
     \<lparr>course_id = ''course-1'', course_title = ''Test Course'', course_description = None,
      assignableUnits = [au1, au2, au3]\<rparr>"

definition eng3 :: CMI5LearningEngine where
  "eng3 = new_CMI5LearningEngine course3 default_options"

definition mastered_state :: "string \<Rightarrow> string \<Rightarrow> CMI5ObjectiveState" where
  \<comment> \<open>\<^verbatim>\<open>createObjectiveState(objectiveId, nodeId, 0.9)\<close> of the test file\<close>
  "mastered_state i n =
     \<lparr>os_objectiveId = i, os_nodeId = Some n, os_kubitId = None, os_mastery = Some 0.9,
      os_lastAttempted = ''2024-01-01T00:00:00.000Z'', os_attempts = Some 1,
      os_satisfied = Some True\<rparr>"

definition progress_A :: CMI5LearningEngineProgress where
  "progress_A =
     \<lparr>cmi5State =
        Some \<lparr>registration = ''reg-1'', launchMode = Normal,
              objectiveStates =
                [''obj-1'' \<mapsto> mastered_state ''obj-1'' ''node-1'',
                 ''obj-2'' \<mapsto> mastered_state ''obj-2'' ''node-2''],
              progress = \<lparr>currentLesson = None, completedLessons = [], timeSpent = 0\<rparr>,
              completed = False, completedAt = None\<rparr>,
      lessonSignals = None\<rparr>"

definition empty_course :: CMI5Course where
  "empty_course =
     \<lparr>course_id = ''course-0'', course_title = ''Empty'', course_description = None,
      assignableUnits = []\<rparr>"


section \<open>The scheduler's update rule\<close>

lemma again_update_fields:
  "lapses (again_update n) = lapses n + 1"
  "reps (again_update n) = reps n"
  "difficulty (again_update n) = min 10 (difficulty n + 0.5)"
  "stability (again_update n) = max 0.1 (stability n * 0.5)"
  "state (again_update n) = Relearning"
  "elapsedDays (again_update n) = elapsedDays n"
  by (simp_all add: again_update_def)

lemma graded_update_fields:
  "reps (graded_update r n) = reps n + 1"
  "lapses (graded_update r n) = lapses n"
  "stability (graded_update r n) = max 0.1 (stability n * (1 + (r - 2) * 0.5))"
  "difficulty (graded_update r n) = max 1 (min 10 (difficulty n - 0.1 * (r - 2)))"
  "elapsedDays (graded_update r n) = elapsedDays n"
  by (simp_all add: graded_update_def Let_def)



lemma applyFSRS_scheduledDays:
  "scheduledDays (applyFSRS now s ri) = max 1 (Math_round (stability (applyFSRS now s ri)))"
  by (simp add: applyFSRS_def Let_def)

lemma applyFSRS_elapsed_eq:
  "elapsedDays (applyFSRS now s ri) =
     Math_floor
       (fdiv (fsub now (if reps s > 0 then fsub now (interval_ms (scheduledDays s)) else now))
          day_ms)"
  by (simp add: applyFSRS_def Let_def again_update_fields graded_update_fields)

lemma applyFSRS_scheduled_int: "scheduledDays (applyFSRS now s ri) \<in> \<int>"
proof -
  have "max 1 (Math_round x) \<in> \<int>" for x
    by (simp add: Math_round_def max_def)
  then show ?thesis by (simp add: applyFSRS_scheduledDays)
qed

lemma s0_fields:
  "stability s0 = 2.5" "difficulty s0 = 5" "scheduledDays s0 = 3" "reps s0 = 3"
  "lapses s0 = 0" "state s0 = Review"
  by (simp_all add: s0_def)



subsection \<open>Elapsed days\<close>

lemma round_even_int: "round_even (of_int m) = m"
  by (simp add: round_even_def)

lemma bexp_scale:
  assumes "x \<noteq> 0"
  shows "bexp (x * 2 powr of_int k) = bexp x + k"
proof -
  have "log 2 \<bar>x * 2 powr of_int k\<bar> = log 2 \<bar>x\<bar> + of_int k"
    using assms by (simp add: abs_mult log_mult)
  then show ?thesis by (simp add: bexp_def)
qed

lemma bexp_int_bounds:
  assumes "m \<noteq> 0" and "\<bar>m\<bar> < 2 ^ 53"
  shows "0 \<le> bexp (of_int m)" and "bexp (of_int m) \<le> 52"
proof -
  have one: "1 \<le> \<bar>real_of_int m\<bar>" using assms(1) by (simp flip: of_int_abs)
  then have "0 \<le> log 2 \<bar>real_of_int m\<bar>" by simp
  then show "0 \<le> bexp (of_int m)" by (simp add: bexp_def)
  have "\<bar>real_of_int m\<bar> < 2 ^ 53"
    using assms(2) by (simp flip: of_int_abs)
  then have "\<bar>real_of_int m\<bar> < 2 powr 53" by simp
  then have "log 2 \<bar>real_of_int m\<bar> < 53"
    using one by (simp add: log_less_iff)
  then show "bexp (of_int m) \<le> 52" by (simp add: bexp_def floor_le_iff)
qed

lemma fl_dyadic:
  assumes "\<bar>m\<bar> < 2 ^ 53"
  shows "fl (of_int m * 2 powr of_int k) = of_int m * 2 powr of_int k"
proof (cases "m = 0")
  case True
  then show ?thesis by (simp add: fl_def)
next
  case False
  define e where "e = bexp (of_int m)"
  define j where "j = nat (52 - e)"
  from bexp_int_bounds [OF False assms] have e: "0 \<le> e" "e \<le> 52"
    by (simp_all add: e_def)
  then have j: "of_int (52 - e) = real j" by (simp add: j_def)
  let ?x = "of_int m * 2 powr of_int k :: real"
  let ?u = "2 powr of_int (bexp ?x - 52) :: real"
  have x0: "?x \<noteq> 0" using False by simp
  have b: "bexp ?x = e + k"
    using False by (simp add: bexp_scale e_def)
  have "?x / ?u = of_int m * (2 powr of_int k / 2 powr of_int (e + k - 52))"
    by (simp only: b times_divide_eq_right)
  also have "\<dots> = of_int m * 2 powr (of_int k - of_int (e + k - 52))"
    by (simp only: powr_diff)
  also have "of_int k - of_int (e + k - 52) = (of_int (52 - e) :: real)" by simp
  also have "of_int m * 2 powr of_int (52 - e) = of_int m * (2::real) ^ j"
    by (simp only: j powr_realpow)
  also have "\<dots> = of_int (m * 2 ^ j)" by simp
  finally have q: "?x / ?u = of_int (m * 2 ^ j)" .
  have "fl ?x = ?u * of_int (round_even (?x / ?u))"
    using x0 by (simp only: fl_def if_False)
  also have "\<dots> = ?u * (?x / ?u)"
    by (simp only: q round_even_int)
  also have "\<dots> = ?x" by simp
  finally show ?thesis .
qed

lemma fl_int: "\<bar>m\<bar> < 2 ^ 53 \<Longrightarrow> fl (of_int m) = of_int m"
  using fl_dyadic [of m 0] by simp

lemma fl_half: "\<bar>m\<bar> < 2 ^ 53 \<Longrightarrow> fl (of_int m / 2) = of_int m / 2"
  using fl_dyadic [of m "-1"] by (simp add: powr_minus field_simps)

lemma fl_zero: "fl 0 = 0"
  by (simp add: fl_def)

lemma interval_ms_int:
  assumes "0 \<le> n" and "n * 86400000 < 2 ^ 53"
  shows "interval_ms (of_int n) = of_int (n * 86400000)"
proof -
  have a: "\<bar>n * 24\<bar> < 2 ^ 53" "\<bar>n * 24 * 60\<bar> < 2 ^ 53" "\<bar>n * 24 * 60 * 60\<bar> < 2 ^ 53"
    "\<bar>n * 24 * 60 * 60 * 1000\<bar> < 2 ^ 53"
    using assms by simp_all
  have 1: "fmul (of_int n) 24 = of_int (n * 24)"
    using fl_int [OF a(1)] by (simp add: fmul_def)
  have 2: "fmul (of_int (n * 24)) 60 = of_int (n * 24 * 60)"
    using fl_int [OF a(2)] by (simp add: fmul_def)
  have 3: "fmul (of_int (n * 24 * 60)) 60 = of_int (n * 24 * 60 * 60)"
    using fl_int [OF a(3)] by (simp add: fmul_def)
  have 4: "fmul (of_int (n * 24 * 60 * 60)) 1000 = of_int (n * 24 * 60 * 60 * 1000)"
    using fl_int [OF a(4)] by (simp add: fmul_def)
  show ?thesis
    unfolding interval_ms_def 1 2 3 4 by simp
qed

lemma fsub_int:
  assumes "\<bar>a - b\<bar> < 2 ^ 53"
  shows "fsub (of_int a) (of_int b) = of_int (a - b)"
  using fl_int [OF assms] by (simp add: fsub_def)

lemma elapsed_whole:
  assumes "0 \<le> n" "n * 86400000 < 2 ^ 53" "0 \<le> t" "t < 2 ^ 53"
  shows "Math_floor (fdiv (fsub (of_int t) (fsub (of_int t) (interval_ms (of_int n)))) day_ms)
         = of_int n"
proof -
  let ?x = "n * 86400000"
  have d1: "\<bar>t - ?x\<bar> < 2 ^ 53" using assms by simp
  have d2: "\<bar>t - (t - ?x)\<bar> < 2 ^ 53" using assms by simp
  have n: "\<bar>n\<bar> < 2 ^ 53" using assms by simp
  have "fsub (of_int t) (fsub (of_int t) (interval_ms (of_int n))) = of_int ?x"
    unfolding interval_ms_int [OF assms(1,2)] fsub_int [OF d1] fsub_int [OF d2] by simp
  moreover have "fdiv (of_int ?x) day_ms = of_int n"
    using fl_int [OF n] by (simp add: fdiv_def day_ms_def)
  ultimately show ?thesis by (simp add: Math_floor_def)
qed

lemma bexp_binade:
  assumes "2 ^ n \<le> \<bar>x\<bar>" and "\<bar>x\<bar> < 2 ^ Suc n"
  shows "bexp x = int n"
proof -
  have pos: "0 < \<bar>x\<bar>" using assms(1) by (smt (verit) zero_less_power)
  have "2 powr real n \<le> \<bar>x\<bar>" using assms(1) by (simp add: powr_realpow)
  then have lo: "real n \<le> log 2 \<bar>x\<bar>" using pos by (simp add: le_log_iff)
  have "\<bar>x\<bar> < 2 powr real (Suc n)" using assms(2) by (simp only: powr_realpow)
  then have hi: "log 2 \<bar>x\<bar> < real n + 1" using pos by (simp add: log_less_iff add.commute)
  show ?thesis
    unfolding bexp_def using lo hi by (intro floor_unique) simp_all
qed

lemma fl_62:
  assumes "2 ^ 62 \<le> \<bar>x\<bar>" and "\<bar>x\<bar> < 2 ^ 63"
  shows "fl x = 1024 * of_int (round_even (x / 1024))"
proof -
  have "bexp x = 62" using bexp_binade [of 62 x] assms by simp
  moreover have "x \<noteq> 0" using assms(1) by auto
  ultimately show ?thesis by (simp add: fl_def)
qed

lemma fl_35:
  assumes "2 ^ 35 \<le> \<bar>x\<bar>" and "\<bar>x\<bar> < 2 ^ 36"
  shows "fl x = of_int (round_even (x * 131072)) / 131072"
proof -
  have b: "bexp x = 35" using bexp_binade [of 35 x] assms by simp
  have x: "x \<noteq> 0" using assms(1) by auto
  have "(2::real) powr (- 17) = inverse (2 powr 17)" by (rule powr_minus)
  then have u: "2 powr of_int (35 - 52) = (1 / 131072 :: real)" by simp
  have "fl x = 2 powr of_int (35 - 52) * of_int (round_even (x / 2 powr of_int (35 - 52)))"
    using x by (simp only: fl_def b if_False)
  also have "\<dots> = of_int (round_even (x * 131072)) / 131072"
    by (simp only: u) simp
  finally show ?thesis .
qed

lemma elapsed_s25:
  "Math_floor (fdiv (fsub 1700000000000 (fsub 1700000000000 (interval_ms (5 / 2)))) 86400000) = 2"
proof -
  have i: "fl (of_int m) = of_int m" if "\<bar>m\<bar> < 2 ^ 53" for m
    using that by (rule fl_int)
  have 1: "fmul (5 / 2) 24 = 60" using i [of 60] by (simp add: fmul_def)
  have 2: "fmul 60 60 = 3600" using i [of 3600] by (simp add: fmul_def)
  have 3: "fmul 3600 60 = 216000" using i [of 216000] by (simp add: fmul_def)
  have 4: "fmul 216000 1000 = 216000000" using i [of 216000000] by (simp add: fmul_def)
  have x: "interval_ms (5 / 2) = 216000000" by (simp add: interval_ms_def 1 2 3 4)
  have y: "fsub 1700000000000 216000000 = 1699784000000"
    using i [of 1699784000000] by (simp add: fsub_def)
  have z: "fsub 1700000000000 1699784000000 = 216000000"
    using i [of 216000000] by (simp add: fsub_def)
  have q: "fdiv 216000000 86400000 = 5 / 2"
    using fl_half [of 5] by (simp add: fdiv_def)
  show ?thesis by (simp add: x y z q Math_floor_def)
qed

lemma interval_long: "interval_ms 54975581389 = 4749890232009600000"
proof -
  have i: "fl (of_int m) = of_int m" if "\<bar>m\<bar> < 2 ^ 53" for m
    using that by (rule fl_int)
  have 1: "fmul 54975581389 24 = 1319413953336"
    using i [of 1319413953336] by (simp add: fmul_def)
  have 2: "fmul 1319413953336 60 = 79164837200160"
    using i [of 79164837200160] by (simp add: fmul_def)
  have 3: "fmul 79164837200160 60 = 4749890232009600"
    using i [of 4749890232009600] by (simp add: fmul_def)
  have 4: "fmul 4749890232009600 1000 = 4749890232009600000"
    using fl_dyadic [of 4638564679696875 10] by (simp add: fmul_def)
  show ?thesis by (simp add: interval_ms_def 1 2 3 4)
qed

lemma elapsed_long_even_clock:
  "Math_floor (fdiv (fsub 1700000000000 (fsub 1700000000000 4749890232009600000)) 86400000)
     = 54975581389"
proof -
  have y: "fsub 1700000000000 4749890232009600000 = - 4749888532009600000"
    using fl_dyadic [of "- 4638563019540625" 10] by (simp add: fsub_def)
  have z: "fsub 1700000000000 (- 4749888532009600000) = 4749890232009600000"
    using fl_dyadic [of 4638564679696875 10] by (simp add: fsub_def)
  have q: "fdiv 4749890232009600000 86400000 = 54975581389"
    using fl_int [of 54975581389] by (simp add: fdiv_def)
  show ?thesis by (simp add: y z q Math_floor_def)
qed

lemma elapsed_long_odd_clock:
  "Math_floor (fdiv (fsub 1700000000512 (fsub 1700000000512 4749890232009600000)) 86400000)
     = 54975581388"
proof -
  have y: "fsub 1700000000512 4749890232009600000 = - 4749888532009598976"
    unfolding fsub_def by (subst fl_62) (simp_all add: round_even_def Let_def)
  have z: "fsub 1700000000512 (- 4749888532009598976) = 4749890232009598976"
    unfolding fsub_def by (subst fl_62) (simp_all add: round_even_def Let_def)
  have q: "\<lfloor>fdiv 4749890232009598976 86400000\<rfloor> = 54975581388"
    unfolding fdiv_def by (subst fl_35) (simp_all add: round_even_def Let_def)
  show ?thesis by (simp add: y z q Math_floor_def)
qed

text \<open>
  Claim C9, as amended. The elapsedDays of the updated state is
  \<open>floor ((now - (now - priorScheduledDays * 24 * 60 * 60 * 1000)) / 86400000)\<close>,
  evaluated in double arithmetic, when the prior reps count is positive, and 0
  otherwise. It is determined by the clock reading, by whether the prior reps count is
  positive and by the prior scheduledDays: the state stores no time of the last review,
  and the rating and the other fields are not read. When the prior scheduledDays is a
  whole number \<open>n \<ge> 0\<close> with \<open>n * 86400000 < 2 ^ 53\<close> and the clock reading is a whole
  number of milliseconds from 0 to below \<open>2 ^ 53\<close>, it is the prior scheduledDays.
\<close>

theorem applyFSRS_elapsedDays:
  "elapsedDays (applyFSRS now s ri) =
     (if reps s > 0
      then Math_floor (fdiv (fsub now (fsub now (interval_ms (scheduledDays s)))) 86400000)
      else 0)
   \<and> ((reps s > 0) = (reps s' > 0) \<and> scheduledDays s = scheduledDays s' \<longrightarrow>
        elapsedDays (applyFSRS now s ri) = elapsedDays (applyFSRS now s' ri'))
   \<and> (reps s > 0 \<and> scheduledDays s = of_int n \<and> 0 \<le> n \<and> n * 86400000 < 2 ^ 53
        \<and> now = of_int t \<and> 0 \<le> t \<and> t < 2 ^ 53 \<longrightarrow>
        elapsedDays (applyFSRS now s ri) = scheduledDays s)"
proof -
  have d: "day_ms = 86400000" by (simp add: day_ms_def)
  have z: "Math_floor (fdiv (fsub now now) day_ms) = 0"
    by (simp add: fsub_def fdiv_def fl_zero Math_floor_def)
  have a: "elapsedDays (applyFSRS now s ri) =
     (if reps s > 0
      then Math_floor (fdiv (fsub now (fsub now (interval_ms (scheduledDays s)))) 86400000)
      else 0)"
    using z by (simp add: applyFSRS_elapsed_eq d)
  have b: "(reps s > 0) = (reps s' > 0) \<and> scheduledDays s = scheduledDays s' \<longrightarrow>
        elapsedDays (applyFSRS now s ri) = elapsedDays (applyFSRS now s' ri')"
    by (simp add: applyFSRS_elapsed_eq)
  have c: "reps s > 0 \<and> scheduledDays s = of_int n \<and> 0 \<le> n \<and> n * 86400000 < 2 ^ 53
        \<and> now = of_int t \<and> 0 \<le> t \<and> t < 2 ^ 53 \<longrightarrow>
        elapsedDays (applyFSRS now s ri) = scheduledDays s"
    using elapsed_whole [of n t] by (auto simp: applyFSRS_elapsed_eq)
  from a b c show ?thesis by blast
qed

theorem applyFSRS_elapsedDays_witness:
  "reps s0 > 0 \<and> scheduledDays s0 = of_int 3 \<and> (3::int) * 86400000 < 2 ^ 53
   \<and> (1700000000000::int) < 2 ^ 53
   \<and> elapsedDays (applyFSRS 1700000000000 s0 (RatingNumber 3)) = 3
   \<and> elapsedDays (applyFSRS 1700000000000 (s0\<lparr>reps := 0\<rparr>) (RatingNumber 3)) = 0
   \<and> elapsedDays (applyFSRS 1700000000000 s0 (RatingNumber 3))
       = elapsedDays (applyFSRS 1700000000000 (s0\<lparr>stability := 7, lapses := 2\<rparr>)
           (RatingName ''again''))"
proof -
  note T = applyFSRS_elapsedDays [where now = 1700000000000 and n = 3 and t = 1700000000000
      and ri = "RatingNumber 3" and ri' = "RatingName ''again''"]
  have f: "reps s0 > 0" "scheduledDays s0 = of_int 3"
    "reps (s0\<lparr>stability := 7, lapses := 2\<rparr>) > 0"
    "scheduledDays (s0\<lparr>stability := 7, lapses := 2\<rparr>) = scheduledDays s0"
    "\<not> reps (s0\<lparr>reps := 0\<rparr>) > 0"
    by (simp_all add: s0_fields)
  have a: "elapsedDays (applyFSRS 1700000000000 s0 (RatingNumber 3)) = 3"
    using T [where s = s0, THEN conjunct2, THEN conjunct2] f by simp
  have b: "elapsedDays (applyFSRS 1700000000000 (s0\<lparr>reps := 0\<rparr>) (RatingNumber 3)) = 0"
    using T [where s = "s0\<lparr>reps := 0\<rparr>", THEN conjunct1] f(5) by simp
  have c: "elapsedDays (applyFSRS 1700000000000 s0 (RatingNumber 3))
       = elapsedDays (applyFSRS 1700000000000 (s0\<lparr>stability := 7, lapses := 2\<rparr>)
           (RatingName ''again''))"
    using T [where s = s0 and s' = "s0\<lparr>stability := 7, lapses := 2\<rparr>",
             THEN conjunct2, THEN conjunct1] f
    by simp
  from a b c f show ?thesis by simp
qed

text \<open>
  The claim as it was stated fails in two ways. A prior interval of 2.5 days gives 2
  elapsed days. And the whole-number interval 54975581389 gives 54975581389 elapsed days
  at the clock reading 1700000000000 but 54975581388 at the clock reading 1700000000512:
  the value is not the prior scheduledDays, and it is not derived from the prior
  interval alone.
\<close>

theorem applyFSRS_elapsedDays_counterexample:
  "reps s25 > 0 \<and> scheduledDays s25 = 5 / 2
   \<and> elapsedDays (applyFSRS 1700000000000 s25 (RatingNumber 3)) = 2
   \<and> reps s_long > 0 \<and> scheduledDays s_long = 54975581389
   \<and> elapsedDays (applyFSRS 1700000000000 s_long (RatingNumber 3)) = 54975581389
   \<and> elapsedDays (applyFSRS 1700000000512 s_long (RatingNumber 3)) = 54975581388"
proof -
  have f: "reps s25 > 0" "scheduledDays s25 = 5 / 2" "reps s_long > 0"
    "scheduledDays s_long = 54975581389"
    by (simp_all add: s25_def s_long_def)
  have d: "day_ms = 86400000" by (simp add: day_ms_def)
  show ?thesis
    by (simp add: f applyFSRS_elapsed_eq d elapsed_s25 interval_long elapsed_long_even_clock
          elapsed_long_odd_clock)
qed

section \<open>Milestones\<close>

lemma js_rem_zero_iff:
  "js_rem x y = Some 0 \<longleftrightarrow> y \<noteq> 0 \<and> (\<exists>k::int. x = of_int k * y)"
proof (cases "y = 0")
  case True
  then show ?thesis by (simp add: js_rem_def)
next
  case False
  have "(x - y * of_int (js_trunc (x / y)) = 0) \<longleftrightarrow> (\<exists>k::int. x = of_int k * y)"
  proof
    assume "x - y * of_int (js_trunc (x / y)) = 0"
    then have "x = of_int (js_trunc (x / y)) * y" by (simp add: mult.commute)
    then show "\<exists>k::int. x = of_int k * y" by blast
  next
    assume "\<exists>k::int. x = of_int k * y"
    then obtain k :: int where k: "x = of_int k * y" by blast
    with False have "x / y = of_int k" by simp
    then have "js_trunc (x / y) = k" by (simp add: js_trunc_def)
    with k show "x - y * of_int (js_trunc (x / y)) = 0" by (simp add: mult.commute)
  qed
  with False show ?thesis by (simp add: js_rem_def)
qed

text \<open>
  Claim C6. The classification is the first rule that matches, in the order:
  first-review when the review is the first recorded one, whatever the masteries and
  states; else mastery-threshold when mastery crosses the threshold or 1.0 upward; else
  state-transition when the state changed and the new state is review or learning; else
  periodic when the review count is an exact multiple of the interval; else none. The
  threshold defaults to 0.8 and the interval to 10. (\<^verbatim>\<open>n % 0\<close> is NaN, so nothing is
  periodic for the interval 0; for a review count other than 0 that is what being an
  exact multiple means.)
\<close>

theorem detectMilestone_priority:
  "detectMilestone this isFirstReview previousMastery newMastery previousState newState
      reviewCount =
     (if isFirstReview then Some FirstReview
      else if threshold_crossed this previousMastery newMastery then Some MasteryThreshold
      else if state_changed previousState newState then Some StateTransition
      else if exact_multiple reviewCount (periodicMilestoneInterval this) then Some Periodic
      else None)
   \<and> masteryThreshold (new_FSRSService \<lparr>opt_masteryThreshold = None,
          opt_periodicMilestoneInterval = None\<rparr>) = 0.8
   \<and> periodicMilestoneInterval (new_FSRSService \<lparr>opt_masteryThreshold = None,
          opt_periodicMilestoneInterval = None\<rparr>) = 10
   \<and> (reviewCount \<noteq> 0 \<longrightarrow>
        exact_multiple reviewCount (periodicMilestoneInterval this)
        = (\<exists>k::int. reviewCount = of_int k * periodicMilestoneInterval this))"
  by (auto simp: detectMilestone_def threshold_crossed_def state_changed_def exact_multiple_def
        js_rem_zero_iff new_FSRSService_def)

theorem detectMilestone_priority_witness:
  "detectMilestone default_service True 0 0.95 New Review 1 = Some FirstReview
   \<and> detectMilestone default_service False 0.5 0.9 Review Review 7 = Some MasteryThreshold
   \<and> detectMilestone default_service False 0.9 0.95 Learning Review 7 = Some StateTransition
   \<and> detectMilestone default_service False 0.9 0.95 Review Review 20 = Some Periodic
   \<and> detectMilestone default_service False 0.9 0.95 Review Review 7 = None"
proof -
  have t: "masteryThreshold default_service = 0.8"
    and p: "periodicMilestoneInterval default_service = 10"
    by (simp_all add: default_service_def new_FSRSService_def)
  have m20: "exact_multiple 20 10"
    unfolding exact_multiple_def by (intro conjI exI [of _ 2]) simp_all
  have m7: "\<not> exact_multiple 7 10"
  proof
    assume "exact_multiple 7 10"
    then obtain k :: int where "(7::real) = of_int k * 10"
      unfolding exact_multiple_def by blast
    then have "(7::real) = of_int (k * 10)" by simp
    then have "(7::int) = k * 10" using of_int_eq_iff [of 7 "k * 10", where ?'a = real] by simp
    then show False by presburger
  qed
  show ?thesis
    using detectMilestone_priority [of default_service True 0 "0.95" New Review 1]
          detectMilestone_priority [of default_service False "0.5" "0.9" Review Review 7]
          detectMilestone_priority [of default_service False "0.9" "0.95" Learning Review 7]
          detectMilestone_priority [of default_service False "0.9" "0.95" Review Review 20]
          detectMilestone_priority [of default_service False "0.9" "0.95" Review Review 7]
    by (simp add: threshold_crossed_def state_changed_def t p m20 m7)
qed

section \<open>The mastery estimate\<close>





section \<open>The completion verdict\<close>

lemma truthy_iff: "truthy b \<longleftrightarrow> b = Some True"
  by (cases b) (simp_all add: truthy_def)

lemma criterion_None: "criterion None f = None"
  by (simp add: criterion_def)

lemma completion_checks_eq:
  "completion_checks crit avg m t sig =
     List.map_filter (\<lambda>c. c) (constructed_checks crit avg m t sig)"
  by (simp add: completion_checks_def constructed_checks_def Let_def truthy_iff split: option.splits)



lemma evaluateCompletionCriteria_isComplete:
  "cr_isComplete (evaluateCompletionCriteria crit avg m t sig d) =
     (if completion_checks crit avg m t sig = []
      then (if t > 0 then m = t else (signal_content sig \<or> signal_exercises sig))
      else list_all (\<lambda>b. b) (completion_checks crit avg m t sig))"
  by (simp add: evaluateCompletionCriteria_def Let_def)




section \<open>The mastery resolver\<close>

lemma resolve_first_record:
  "resolveObjectiveState obj (Some states) ms = first_record states (lookup_order obj)"
  by (simp add: resolveObjectiveState_def lookup_order_def alternate_key_def lookup_alternate_def
        split: option.splits)

lemma resolve_no_states: "resolveObjectiveState obj None ms = None"
  by (simp add: resolveObjectiveState_def)

lemma objectiveProgress_fields:
  "op_id (objectiveProgress opts sts d obj) = obj_id obj"
  "op_nodeId (objectiveProgress opts sts d obj) = obj_nodeId obj"
  "op_kubitId (objectiveProgress opts sts d obj) = obj_kubitId obj"
  "op_masteryScore (objectiveProgress opts sts d obj) = effectiveMasteryScore opts d obj"
  "op_mastery (objectiveProgress opts sts d obj) =
     (case resolveObjectiveState obj sts (effectiveMasteryScore opts d obj) of
        None \<Rightarrow> 0 | Some st \<Rightarrow> (case os_mastery st of None \<Rightarrow> 0 | Some m \<Rightarrow> m))"
  "op_attempts (objectiveProgress opts sts d obj) =
     (case resolveObjectiveState obj sts (effectiveMasteryScore opts d obj) of
        None \<Rightarrow> 0 | Some st \<Rightarrow> (case os_attempts st of None \<Rightarrow> 0 | Some a \<Rightarrow> a))"
  "op_source (objectiveProgress opts sts d obj) =
     (case resolveObjectiveState obj sts (effectiveMasteryScore opts d obj) of
        None \<Rightarrow> SourceNone | Some st \<Rightarrow> SourceCmi5)"
  "op_satisfied (objectiveProgress opts sts d obj) =
     (case resolveObjectiveState obj sts (effectiveMasteryScore opts d obj) of
        None \<Rightarrow> effectiveMasteryScore opts d obj \<le> 0
      | Some st \<Rightarrow>
          (case os_satisfied st of
             Some b \<Rightarrow> b
           | None \<Rightarrow> effectiveMasteryScore opts d obj
                      \<le> (case os_mastery st of None \<Rightarrow> 0 | Some m \<Rightarrow> m)))"
  by (simp_all add: objectiveProgress_def Let_def split: option.splits)

text \<open>
  Claim C4. The resolver looks the objective up under its exact id, then under its
  primary alternate key (nodeId) if present, then under its secondary alternate key
  (kubitId) if present, and returns the first record found; without a map of records
  it finds none. If no record is found the fact is the zero state: mastery 0,
  attempts 0, source none, satisfied iff \<open>0 \<ge> effectiveMasteryScore\<close>. If a record is
  found, the fact has the mastery and the attempts of the record (0 where the record
  lacks them) and the source cmi5, and satisfied is the stored flag of the record when
  present, else \<open>mastery \<ge> effectiveMasteryScore\<close>. The fact keeps the id and the
  alternate keys of the objective. The effective mastery score is the override of the
  objective when present, else that of the unit, else the default of the engine, which
  is 0.8 unless the options set it.
\<close>

theorem resolveObjectiveState_order:
  "resolveObjectiveState obj (Some states) ms = first_record states (lookup_order obj)
   \<and> resolveObjectiveState obj None ms = None
   \<and> (let fact = objectiveProgress opts sts d obj;
           eff = effectiveMasteryScore opts d obj
       in op_masteryScore fact = eff
          \<and> op_id fact = obj_id obj \<and> op_nodeId fact = obj_nodeId obj
          \<and> op_kubitId fact = obj_kubitId obj
          \<and> (case resolveObjectiveState obj sts eff of
                None \<Rightarrow>
                  op_mastery fact = 0 \<and> op_attempts fact = 0 \<and> op_source fact = SourceNone
                  \<and> op_satisfied fact = (0 \<ge> eff)
              | Some st \<Rightarrow>
                  op_source fact = SourceCmi5
                  \<and> op_mastery fact = (case os_mastery st of Some m \<Rightarrow> m | None \<Rightarrow> 0)
                  \<and> op_attempts fact = (case os_attempts st of Some a \<Rightarrow> a | None \<Rightarrow> 0)
                  \<and> op_satisfied fact =
                      (case os_satisfied st of
                         Some b \<Rightarrow> b
                       | None \<Rightarrow> (case os_mastery st of Some m \<Rightarrow> m | None \<Rightarrow> 0) \<ge> eff)))
   \<and> effectiveMasteryScore opts d obj =
       (case obj_masteryScore obj of
          Some m \<Rightarrow> m
        | None \<Rightarrow> (case d_masteryScore d of Some m \<Rightarrow> m | None \<Rightarrow> defaultMasteryScore opts))
   \<and> defaultMasteryScore (options (new_CMI5LearningEngine course default_options)) = 0.8"
  by (simp add: resolve_first_record resolve_no_states objectiveProgress_fields Let_def
        effectiveMasteryScore_def new_CMI5LearningEngine_def default_options_def
        split: option.splits)

theorem resolveObjectiveState_order_witness:
  "(let fact = objectiveProgress (options eng3)
                 (Some [''kubit-9'' \<mapsto> kubit9_record]) (descriptor au3)
                 legacy_objective
    in op_id fact = ''obj-9'' \<and> op_kubitId fact = Some ''kubit-9'' \<and> op_masteryScore fact = 0.8
       \<and> op_mastery fact = 0.9 \<and> op_attempts fact = 2 \<and> op_source fact = SourceCmi5
       \<and> op_satisfied fact)
   \<and> (let fact = objectiveProgress (options eng3)
                 (Some [''kubit-8'' \<mapsto> kubit8_record,
                        ''node-8'' \<mapsto> node8_record]) (descriptor au3)
                 keyed_objective
    in op_masteryScore fact = 0.95 \<and> op_mastery fact = 0.9 \<and> op_attempts fact = 3
       \<and> op_source fact = SourceCmi5 \<and> \<not> op_satisfied fact)
   \<and> (let fact = objectiveProgress (options eng3)
                 (Some [''node-8'' \<mapsto> node8_record,
                        ''obj-8'' \<mapsto> mastered_state ''obj-8'' ''node-8'']) (descriptor au3)
                 keyed_objective
    in op_mastery fact = 0.9 \<and> op_attempts fact = 1 \<and> op_satisfied fact)
   \<and> (let fact = objectiveProgress (options eng3)
                 (Some [''other'' \<mapsto> node8_record]) (descriptor au3)
                 legacy_objective
    in op_mastery fact = 0 \<and> op_attempts fact = 0 \<and> op_source fact = SourceNone
       \<and> \<not> op_satisfied fact)"
proof -
  let ?k9 = "[''kubit-9'' \<mapsto> kubit9_record]"
  let ?k8 = "[''kubit-8'' \<mapsto> kubit8_record,
              ''node-8'' \<mapsto> node8_record]"
  let ?o8 = "[''node-8'' \<mapsto> node8_record,
              ''obj-8'' \<mapsto> mastered_state ''obj-8'' ''node-8'']"
  let ?no = "[''other'' \<mapsto> node8_record]"
  note T = resolveObjectiveState_order [where opts = "options eng3" and d = "descriptor au3"
      and course = course3, unfolded Let_def]
  have lo: "lookup_order legacy_objective = [''obj-9'', ''kubit-9'']"
    "lookup_order keyed_objective = [''obj-8'', ''node-8'', ''kubit-8'']"
    by (simp_all add: lookup_order_def alternate_key_def legacy_objective_def
          keyed_objective_def)
  have ob: "obj_id legacy_objective = ''obj-9''" "obj_kubitId legacy_objective = Some ''kubit-9''"
    "obj_masteryScore legacy_objective = None" "obj_masteryScore keyed_objective = Some 0.95"
    "d_masteryScore (descriptor au3) = None"
    by (simp_all add: legacy_objective_def keyed_objective_def descriptor_def au3_def)
  have os: "os_mastery kubit9_record = Some 0.9" "os_attempts kubit9_record = Some 2"
    "os_satisfied kubit9_record = None"
    "os_mastery node8_record = Some 0.9" "os_attempts node8_record = Some 3"
    "os_satisfied node8_record = None"
    "os_mastery (mastered_state i n) = Some 0.9" "os_attempts (mastered_state i n) = Some 1"
    "os_satisfied (mastered_state i n) = Some True" for i n
    by (simp_all add: kubit9_record_def node8_record_def unflagged_state_def
          mastered_state_def)
  have df: "defaultMasteryScore (options eng3) = 0.8"
    using T [THEN conjunct2, THEN conjunct2, THEN conjunct2, THEN conjunct2]
    by (simp add: eng3_def)
  have e9: "effectiveMasteryScore (options eng3) (descriptor au3) legacy_objective = 0.8"
    and e8: "effectiveMasteryScore (options eng3) (descriptor au3) keyed_objective = 0.95"
    using T [where obj = legacy_objective, THEN conjunct2, THEN conjunct2, THEN conjunct2,
             THEN conjunct1]
          T [where obj = keyed_objective, THEN conjunct2, THEN conjunct2, THEN conjunct2,
             THEN conjunct1]
    by (simp_all add: ob df)
  have r: "resolveObjectiveState legacy_objective (Some ?k9) ms
             = Some (kubit9_record)"
    "resolveObjectiveState keyed_objective (Some ?k8) ms
             = Some (node8_record)"
    "resolveObjectiveState keyed_objective (Some ?o8) ms
             = Some (mastered_state ''obj-8'' ''node-8'')"
    "resolveObjectiveState legacy_objective (Some ?no) ms = None" for ms
    by (simp_all add: T [THEN conjunct1] lo)
  have 1: "op_id (objectiveProgress (options eng3) (Some ?k9) (descriptor au3) legacy_objective)
             = ''obj-9''
     \<and> op_kubitId (objectiveProgress (options eng3) (Some ?k9) (descriptor au3) legacy_objective)
             = Some ''kubit-9''
     \<and> op_masteryScore (objectiveProgress (options eng3) (Some ?k9) (descriptor au3)
          legacy_objective) = 0.8
     \<and> op_mastery (objectiveProgress (options eng3) (Some ?k9) (descriptor au3)
          legacy_objective) = 0.9
     \<and> op_attempts (objectiveProgress (options eng3) (Some ?k9) (descriptor au3)
          legacy_objective) = 2
     \<and> op_source (objectiveProgress (options eng3) (Some ?k9) (descriptor au3)
          legacy_objective) = SourceCmi5
     \<and> op_satisfied (objectiveProgress (options eng3) (Some ?k9) (descriptor au3)
          legacy_objective)"
    using T [where obj = legacy_objective and sts = "Some ?k9", THEN conjunct2, THEN conjunct2,
             THEN conjunct1]
    by (simp add: e9 r ob os)
  have 2: "op_masteryScore (objectiveProgress (options eng3) (Some ?k8) (descriptor au3)
          keyed_objective) = 0.95
     \<and> op_mastery (objectiveProgress (options eng3) (Some ?k8) (descriptor au3)
          keyed_objective) = 0.9
     \<and> op_attempts (objectiveProgress (options eng3) (Some ?k8) (descriptor au3)
          keyed_objective) = 3
     \<and> op_source (objectiveProgress (options eng3) (Some ?k8) (descriptor au3)
          keyed_objective) = SourceCmi5
     \<and> \<not> op_satisfied (objectiveProgress (options eng3) (Some ?k8) (descriptor au3)
          keyed_objective)"
    using T [where obj = keyed_objective and sts = "Some ?k8", THEN conjunct2, THEN conjunct2,
             THEN conjunct1]
    by (simp add: e8 r ob os)
  have 3: "op_mastery (objectiveProgress (options eng3) (Some ?o8) (descriptor au3)
          keyed_objective) = 0.9
     \<and> op_attempts (objectiveProgress (options eng3) (Some ?o8) (descriptor au3)
          keyed_objective) = 1
     \<and> op_satisfied (objectiveProgress (options eng3) (Some ?o8) (descriptor au3)
          keyed_objective)"
    using T [where obj = keyed_objective and sts = "Some ?o8", THEN conjunct2, THEN conjunct2,
             THEN conjunct1]
    by (simp add: e8 r ob os)
  have 4: "op_mastery (objectiveProgress (options eng3) (Some ?no) (descriptor au3)
          legacy_objective) = 0
     \<and> op_attempts (objectiveProgress (options eng3) (Some ?no) (descriptor au3)
          legacy_objective) = 0
     \<and> op_source (objectiveProgress (options eng3) (Some ?no) (descriptor au3)
          legacy_objective) = SourceNone
     \<and> \<not> op_satisfied (objectiveProgress (options eng3) (Some ?no) (descriptor au3)
          legacy_objective)"
    using T [where obj = legacy_objective and sts = "Some ?no", THEN conjunct2, THEN conjunct2,
             THEN conjunct1]
    by (simp add: e9 r ob os)
  from 1 2 3 4 show ?thesis
    unfolding Let_def by blast
qed

section \<open>Evaluation of a course without units\<close>

text \<open>
  Claim C10. For a course whose list of assignable units is empty, evaluation returns
  a snapshot whose map of units is empty and whose course status is locked.
\<close>

theorem evaluate_empty_course:
  assumes "assignableUnits course = []"
  shows "evaluate (new_CMI5LearningEngine course opts) prog =
           \<lparr>snap_aus = [],
            snap_course = \<lparr>cs_id = course_id course, cs_title = course_title course,
                            cs_status = Locked\<rparr>\<rparr>
         \<and> aggregateStatus [] = Locked"
  using assms
  by (simp add: evaluate_def new_CMI5LearningEngine_def buildCourseIndex_def Map_values_def
        first_pass_def second_pass_def aggregateStatus_def Let_def)

theorem evaluate_empty_course_witness:
  "assignableUnits empty_course = []
   \<and> evaluate (new_CMI5LearningEngine empty_course default_options) empty_progress =
       \<lparr>snap_aus = [],
        snap_course = \<lparr>cs_id = ''course-0'', cs_title = ''Empty'', cs_status = Locked\<rparr>\<rparr>"
proof -
  have h: "assignableUnits empty_course = []" by (simp add: empty_course_def)
  have "course_id empty_course = ''course-0''" "course_title empty_course = ''Empty''"
    by (simp_all add: empty_course_def)
  with h show ?thesis
    using evaluate_empty_course [OF h, of default_options empty_progress] by simp
qed


section \<open>The two passes of the engine\<close>

lemma Map_set_fresh: "k \<notin> fst ` set m \<Longrightarrow> Map_set k v m = m @ [(k, v)]"
  by (induction m) auto

lemma Map_set_replace:
  "k \<notin> fst ` set xs \<Longrightarrow> Map_set k v (xs @ (k, w) # ys) = xs @ (k, v) # ys"
  by (induction xs) auto

lemma Map_set_keys:
  "map fst (Map_set k v m) = (if k \<in> fst ` set m then map fst m else map fst m @ [k])"
  by (induction m) (force simp: image_iff)+

lemma Map_set_values: "(k', d) \<in> set (Map_set k v m) \<Longrightarrow> d = v \<or> (k', d) \<in> set m"
  by (induction m) (auto split: if_splits)

lemma Map_get_middle: "k \<notin> fst ` set xs \<Longrightarrow> Map_get (xs @ (k, v) # ys) k = Some v"
  by (induction xs) (auto simp: Map_get_def)

lemma index_ok_Map_set:
  assumes "index_ok m" and "d_id v = k"
  shows "index_ok (Map_set k v m)"
proof -
  have "list_all (\<lambda>(k, d). d_id d = k) (Map_set k v m)"
    using assms by (induction m) (auto simp: index_ok_def)
  moreover have "distinct (map fst (Map_set k v m))"
    using assms by (auto simp: Map_set_keys index_ok_def)
  ultimately show ?thesis by (simp add: index_ok_def)
qed

lemma d_id_descriptor: "d_id (descriptor au) = au_id au"
  by (simp add: descriptor_def)

lemma index_ok_fold:
  "index_ok m \<Longrightarrow>
   index_ok (fold (\<lambda>au aus. Map_set (au_id au) (descriptor au) aus) units m)"
  by (induction units arbitrary: m) (simp_all add: index_ok_Map_set d_id_descriptor)

lemma index_ok_build: "index_ok (aus (buildCourseIndex course))"
proof -
  have "index_ok []" by (simp add: index_ok_def)
  then show ?thesis by (simp add: buildCourseIndex_def index_ok_fold)
qed

lemma index_values_fold:
  "(k, d) \<in> set (fold (\<lambda>au aus. Map_set (au_id au) (descriptor au) aus) units m)
   \<Longrightarrow> d \<in> descriptor ` set units \<or> (k, d) \<in> set m"
proof (induction units arbitrary: m)
  case Nil
  then show ?case by simp
next
  case (Cons au units)
  from Cons.IH [of "Map_set (au_id au) (descriptor au) m"] Cons.prems
  have "d \<in> descriptor ` set units \<or> (k, d) \<in> set (Map_set (au_id au) (descriptor au) m)"
    by simp
  then show ?case
    using Map_set_values [of k d "au_id au" "descriptor au" m] by auto
qed

lemma index_values_build:
  "(k, d) \<in> set (aus (buildCourseIndex course)) \<Longrightarrow> d \<in> descriptor ` set (assignableUnits course)"
  using index_values_fold [of k d "assignableUnits course" "[]"]
  by (simp add: buildCourseIndex_def)

lemma first_pass_fold:
  assumes "index_ok (pre @ post)"
  shows "fold (\<lambda>d evs. Map_set (d_id d) (F d) evs) (map snd post) (map (\<lambda>(k, d). (k, F d)) pre)
         = map (\<lambda>(k, d). (k, F d)) (pre @ post)"
  using assms
proof (induction post arbitrary: pre)
  case Nil
  then show ?case by simp
next
  case (Cons p post)
  obtain k d where p: "p = (k, d)" by (cases p)
  from Cons.prems p have id: "d_id d = k" and fresh: "k \<notin> fst ` set pre"
    by (auto simp: index_ok_def)
  have fresh': "k \<notin> fst ` set (map (\<lambda>(k, d). (k, F d)) pre)"
    using fresh by (auto simp: image_iff)
  have ok: "index_ok ((pre @ [p]) @ post)" using Cons.prems by simp
  show ?case
    using Cons.IH [OF ok] by (simp add: p id Map_set_fresh [OF fresh'])
qed

lemma first_pass_map:
  assumes "index_ok idx"
  shows "first_pass opts sts cmpl cu sg (Map_values idx)
         = map (\<lambda>(k, d). (k, first_pass_au opts sts cmpl cu sg d)) idx"
  using first_pass_fold [of "[]" idx "first_pass_au opts sts cmpl cu sg"] assms
  by (simp add: first_pass_def Map_values_def)

lemma Map_get_view:
  "map_option facts (Map_get E p) = map_of (facts_view E) p"
  by (induction E) (auto simp: Map_get_def facts_view_def)

lemma scan_prerequisite_cong:
  assumes "facts_view E = facts_view E'"
  shows "scan_prerequisite opts E p acc = scan_prerequisite opts E' p acc"
proof -
  have "map_option facts (Map_get E p) = map_option facts (Map_get E' p)"
    by (simp add: Map_get_view assms)
  then show ?thesis
    by (cases "Map_get E p"; cases "Map_get E' p")
       (auto simp: scan_prerequisite_def facts_def Let_def split: prod.splits)
qed

lemma scan_prerequisites_cong:
  assumes "facts_view E = facts_view E'"
  shows "scan_prerequisites opts E ps = scan_prerequisites opts E' ps"
proof -
  have "scan_prerequisite opts E = scan_prerequisite opts E'"
    by (intro ext) (rule scan_prerequisite_cong [OF assms])
  then show ?thesis by (simp add: scan_prerequisites_def)
qed

lemma finalize_au_cong:
  "facts_view E = facts_view E' \<Longrightarrow> finalize_au opts E d ev = finalize_au opts E' d ev"
  by (simp add: finalize_au_def scan_prerequisites_cong [of E E'])

lemma facts_finalize: "facts (finalize_au opts E d ev) = facts ev"
  by (simp add: finalize_au_def facts_def Let_def split: prod.splits)

lemma second_pass_fold:
  assumes "index_ok (pre @ post)"
    and "E1 = map (\<lambda>(k, d). (k, F d)) (pre @ post)"
  shows "fold (second_pass_au opts) (map snd post)
           (map (\<lambda>(k, d). (k, finalize_au opts E1 d (F d))) pre @ map (\<lambda>(k, d). (k, F d)) post)
         = map (\<lambda>(k, d). (k, finalize_au opts E1 d (F d))) (pre @ post)"
  using assms
proof (induction post arbitrary: pre)
  case Nil
  then show ?case by simp
next
  case (Cons p post)
  let ?fin = "\<lambda>(k, d). (k, finalize_au opts E1 d (F d))"
  let ?ini = "\<lambda>(k, d). (k, F d)"
  obtain k d where p: "p = (k, d)" by (cases p)
  define cur where "cur = map ?fin pre @ (k, F d) # map ?ini post"
  from Cons.prems p have id: "d_id d = k" and fresh: "k \<notin> fst ` set pre"
    by (auto simp: index_ok_def)
  have fresh': "k \<notin> fst ` set (map ?fin pre)"
    using fresh by (auto simp: image_iff)
  have get: "Map_get cur k = Some (F d)"
    unfolding cur_def by (rule Map_get_middle [OF fresh'])
  have view: "facts_view cur = facts_view E1"
    unfolding Cons.prems(2) cur_def
    by (simp add: facts_view_def facts_finalize case_prod_unfold p)
  have "second_pass_au opts d cur = Map_set k (finalize_au opts E1 d (F d)) cur"
    by (simp add: second_pass_au_def id get finalize_au_cong [OF view])
  also have "\<dots> = map ?fin pre @ (k, finalize_au opts E1 d (F d)) # map ?ini post"
    unfolding cur_def by (rule Map_set_replace [OF fresh'])
  finally have step: "second_pass_au opts d cur
              = map ?fin pre @ (k, finalize_au opts E1 d (F d)) # map ?ini post" .
  have ok: "index_ok ((pre @ [p]) @ post)" using Cons.prems(1) by simp
  have e: "E1 = map ?ini ((pre @ [p]) @ post)" using Cons.prems(2) by simp
  have "fold (second_pass_au opts) (map snd (p # post))
          (map ?fin pre @ map ?ini (p # post))
        = fold (second_pass_au opts) (map snd post) (second_pass_au opts d cur)"
    by (simp add: p cur_def)
  also have "\<dots> = fold (second_pass_au opts) (map snd post)
                     (map ?fin (pre @ [p]) @ map ?ini post)"
    by (simp add: step p)
  also have "\<dots> = map ?fin ((pre @ [p]) @ post)"
    by (rule Cons.IH [OF ok e])
  finally show ?case by simp
qed

lemma second_pass_map:
  assumes "index_ok idx" and "E1 = map (\<lambda>(k, d). (k, F d)) idx"
  shows "second_pass opts (Map_values idx) E1
         = map (\<lambda>(k, d). (k, finalize_au opts E1 d (F d))) idx"
  using second_pass_fold [of "[]" idx E1 F opts] assms
  by (simp add: second_pass_def Map_values_def)

lemma scan_fold_filter:
  "fold (scan_prerequisite opts E) ps (u, m) =
     (u @ filter (prerequisite_unmet opts E) ps, m @ filter (prerequisite_missing E) ps)"
proof (induction ps arbitrary: u m)
  case Nil
  then show ?case by simp
next
  case (Cons p ps)
  have "scan_prerequisite opts E p (u, m) =
          (u @ filter (prerequisite_unmet opts E) [p], m @ filter (prerequisite_missing E) [p])"
    by (cases "Map_get E p")
       (simp_all add: scan_prerequisite_def prerequisite_unmet_def prerequisite_missing_def Let_def)
  then show ?case by (simp add: Cons.IH)
qed

lemma scan_prerequisites_filter:
  "scan_prerequisites opts E ps =
     (filter (prerequisite_unmet opts E) ps, filter (prerequisite_missing E) ps)"
  by (simp add: scan_prerequisites_def scan_fold_filter)

lemma derive_status_locked: "derive_status b ev = Locked \<longleftrightarrow> \<not> b"
  by (simp add: derive_status_def Let_def)

lemma finalize_au_fields:
  "status (finalize_au opts E d ev) =
     derive_status (filter (prerequisite_unmet opts E) (d_prerequisites d) = []) ev"
  "prerequisites (finalize_au opts E d ev) =
     \<lparr>ids = d_prerequisites d,
      unmetIds = filter (prerequisite_unmet opts E) (d_prerequisites d),
      missingIds = filter (prerequisite_missing E) (d_prerequisites d),
      met = (filter (prerequisite_unmet opts E) (d_prerequisites d) = [])\<rparr>"
  "completion (finalize_au opts E d ev) = completion ev"
  "moveOn (finalize_au opts E d ev) = moveOn ev"
  "pass (finalize_au opts E d ev) = pass ev"
  "objectives (finalize_au opts E d ev) = objectives ev"
  "started (finalize_au opts E d ev) = started ev"
  "auId (finalize_au opts E d ev) = auId ev"
  by (simp_all add: finalize_au_def scan_prerequisites_filter Let_def)

lemma prerequisite_unmet_cong:
  assumes "facts_view E = facts_view E'"
  shows "prerequisite_unmet opts E p = prerequisite_unmet opts E' p"
proof -
  have "map_option facts (Map_get E p) = map_option facts (Map_get E' p)"
    by (simp add: Map_get_view assms)
  then show ?thesis
    by (cases "Map_get E p"; cases "Map_get E' p")
       (auto simp: prerequisite_unmet_def facts_def)
qed

lemma evaluate_aus:
  assumes "index_ok (aus (index this))"
  shows "snap_aus (evaluate this prog) =
           map (\<lambda>(k, d). (k, finalize_au (options this) (pass1_map this prog) d (pass1 this prog d)))
             (aus (index this))"
proof -
  have f: "first_pass (options this)
             (case cmi5State prog of None \<Rightarrow> None | Some st \<Rightarrow> Some (objectiveStates st))
             (case cmi5State prog of None \<Rightarrow> [] | Some st \<Rightarrow> completedLessons (progress st))
             (case cmi5State prog of None \<Rightarrow> None | Some st \<Rightarrow> currentLesson (progress st))
             (case lessonSignals prog of None \<Rightarrow> Map.empty | Some m \<Rightarrow> m)
             (Map_values (aus (index this)))
           = pass1_map this prog"
    unfolding pass1_map_def pass1_def completed_units_def
    by (rule first_pass_map [OF assms])
  have "snap_aus (evaluate this prog) =
          second_pass (options this) (Map_values (aus (index this))) (pass1_map this prog)"
    by (simp add: evaluate_def Let_def f)
  also have "\<dots> = map (\<lambda>(k, d). (k, finalize_au (options this) (pass1_map this prog) d
                                     (pass1 this prog d))) (aus (index this))"
    by (rule second_pass_map [OF assms]) (simp add: pass1_map_def)
  finally show ?thesis .
qed

lemma evaluate_course_status:
  "cs_status (snap_course (evaluate this prog)) =
     aggregateStatus (map status (sort_key ev_order (Map_values (snap_aus (evaluate this prog)))))"
  by (simp add: evaluate_def Let_def)

lemma facts_view_snapshot:
  assumes "index_ok (aus (index this))"
  shows "facts_view (snap_aus (evaluate this prog)) = facts_view (pass1_map this prog)"
  by (simp add: evaluate_aus [OF assms] facts_view_def pass1_map_def facts_def
        finalize_au_fields case_prod_unfold)

lemma pass1_completed:
  "d_id d \<in> set (completed_units prog) \<Longrightarrow> isComplete (completion (pass1 this prog d))"
  by (simp add: pass1_def first_pass_au_def Let_def)

lemma index_new: "index_ok (aus (index (new_CMI5LearningEngine course opts)))"
  by (simp add: new_CMI5LearningEngine_def index_ok_build)

text \<open>
  Claim C1. For every course, options, progress snapshot and lesson signals, and every
  unit \<open>(k, ev)\<close> of the evaluation snapshot: the status is locked if and only if the
  list of unmet prerequisites of the unit is not empty; that list holds exactly the
  prerequisites of the unit that are unmet under the configured prerequisite policy and
  missing-prerequisite behaviour; and when the id of the unit is in the external
  completed-units list, its isComplete flag is true, while the status is still locked if
  a prerequisite is unmet.
\<close>

theorem locked_iff_unmet:
  assumes "(k, ev) \<in> set (snap_aus (evaluate (new_CMI5LearningEngine course opts) prog))"
  shows "(status ev = Locked \<longleftrightarrow> unmetIds (prerequisites ev) \<noteq> [])
       \<and> unmetIds (prerequisites ev) =
           filter (prerequisite_unmet (options (new_CMI5LearningEngine course opts))
                     (snap_aus (evaluate (new_CMI5LearningEngine course opts) prog)))
             (ids (prerequisites ev))
       \<and> (\<exists>au \<in> set (assignableUnits course). au_id au = k
            \<and> ids (prerequisites ev) = (case au_prerequisites au of None \<Rightarrow> [] | Some ps \<Rightarrow> ps))
       \<and> (k \<in> set (completed_units prog) \<longrightarrow> isComplete (completion ev))
       \<and> (k \<in> set (completed_units prog) \<and> unmetIds (prerequisites ev) \<noteq> []
            \<longrightarrow> isComplete (completion ev) \<and> status ev = Locked)"
proof -
  let ?eng = "new_CMI5LearningEngine course opts"
  let ?S = "snap_aus (evaluate ?eng prog)"
  note ok = index_new [of course opts]
  from assms obtain d where d: "(k, d) \<in> set (aus (index ?eng))"
    and ev: "ev = finalize_au (options ?eng) (pass1_map ?eng prog) d (pass1 ?eng prog d)"
    unfolding evaluate_aus [OF ok] by auto
  from ok d have id: "d_id d = k"
    by (auto simp: index_ok_def list_all_iff)
  have un: "prerequisite_unmet (options ?eng) (pass1_map ?eng prog)
            = prerequisite_unmet (options ?eng) ?S"
    by (intro ext prerequisite_unmet_cong) (simp add: facts_view_snapshot [OF ok])
  have a: "status ev = Locked \<longleftrightarrow> unmetIds (prerequisites ev) \<noteq> []"
    by (simp add: ev finalize_au_fields derive_status_locked)
  have b: "unmetIds (prerequisites ev) =
             filter (prerequisite_unmet (options ?eng) ?S) (ids (prerequisites ev))"
    by (simp add: ev finalize_au_fields un)
  from d have "d \<in> descriptor ` set (assignableUnits course)"
    by (auto simp: new_CMI5LearningEngine_def dest: index_values_build)
  then obtain au where au: "au \<in> set (assignableUnits course)" "d = descriptor au"
    by blast
  have c: "\<exists>au \<in> set (assignableUnits course). au_id au = k
            \<and> ids (prerequisites ev) = (case au_prerequisites au of None \<Rightarrow> [] | Some ps \<Rightarrow> ps)"
    using au id by (intro bexI [of _ au]) (simp_all add: ev finalize_au_fields descriptor_def)
  have e: "k \<in> set (completed_units prog) \<Longrightarrow> isComplete (completion ev)"
    using pass1_completed [of d prog ?eng] by (simp add: ev finalize_au_fields id)
  from a b c e show ?thesis by blast
qed

section \<open>The three-unit course\<close>

lemma pass1_fields:
  "ev_order (pass1 this prog d) = d_order d"
  "mo_criteria (moveOn (pass1 this prog d)) =
     (case d_moveOn d of None \<Rightarrow> MoveOnNotApplicable | Some c \<Rightarrow> c)"
  "details (objectives (pass1 this prog d)) =
     map (objectiveProgress (options this)
            (case cmi5State prog of None \<Rightarrow> None | Some st \<Rightarrow> Some (objectiveStates st)) d)
       (d_objectives d)"
  by (simp_all add: pass1_def first_pass_au_def Let_def)

lemma pass1_verdicts:
  "isComplete (completion (pass1 this prog d)) =
     (d_id d \<in> set (completed_units prog)
      \<or> cr_isComplete
           (evaluateCompletionCriteria (d_completionCriteria d)
              (masteryAverageOf (details (objectives (pass1 this prog d))))
              (length (filter op_satisfied (details (objectives (pass1 this prog d)))))
              (length (details (objectives (pass1 this prog d))))
              ((case lessonSignals prog of None \<Rightarrow> Map.empty | Some m \<Rightarrow> m) (d_id d))
              (defaultMasteryScore (options this))))"
  "isPassed (pass (pass1 this prog d)) =
     (length (details (objectives (pass1 this prog d))) > 0
      \<and> passThresholdOf (options this) d
          \<le> masteryAverageOf (details (objectives (pass1 this prog d))))"
  "started (pass1 this prog d) =
     (d_id d \<in> set (completed_units prog)
      \<or> (case cmi5State prog of None \<Rightarrow> None | Some st \<Rightarrow> currentLesson (progress st))
          = Some (d_id d)
      \<or> list_ex (\<lambda>objective. op_attempts objective > 0) (details (objectives (pass1 this prog d)))
      \<or> signal_content ((case lessonSignals prog of None \<Rightarrow> Map.empty | Some m \<Rightarrow> m) (d_id d))
      \<or> signal_exercises ((case lessonSignals prog of None \<Rightarrow> Map.empty | Some m \<Rightarrow> m) (d_id d)))"
  by (simp_all add: pass1_def first_pass_au_def Let_def)

lemma eng3_options:
  "defaultMasteryScore (options eng3) = 0.8"
  "prerequisitePolicy (options eng3) = ByCompletion"
  "missingPrerequisiteBehavior (options eng3) = Ignore"
  by (simp_all add: eng3_def new_CMI5LearningEngine_def default_options_def)

lemma eng3_index:
  "aus (index eng3) =
     [(''au-1'', descriptor au1), (''au-2'', descriptor au2), (''au-3'', descriptor au3)]"
  "courseId (index eng3) = ''course-1''"
  by (simp_all add: eng3_def new_CMI5LearningEngine_def buildCourseIndex_def course3_def
        au1_def au2_def au3_def)

lemma descriptor_fields:
  "d_id (descriptor au) = au_id au"
  "d_order (descriptor au) = (case au_order au of None \<Rightarrow> 0 | Some n \<Rightarrow> n)"
  "d_prerequisites (descriptor au) = (case au_prerequisites au of None \<Rightarrow> [] | Some ps \<Rightarrow> ps)"
  "d_objectives (descriptor au) = au_objectives au"
  "d_masteryScore (descriptor au) = au_masteryScore au"
  "d_moveOn (descriptor au) = au_moveOn au"
  "d_completionCriteria (descriptor au) = au_completionCriteria au"
  by (simp_all add: descriptor_def)

lemma au_fields:
  "au_id au1 = ''au-1''" "au_id au2 = ''au-2''" "au_id au3 = ''au-3''"
  "au_order au1 = Some 1" "au_order au2 = Some 2" "au_order au3 = Some 3"
  "au_prerequisites au1 = None" "au_prerequisites au2 = Some [''au-1'']"
  "au_prerequisites au3 = Some [''au-2'']"
  "au_masteryScore au1 = None" "au_masteryScore au2 = None" "au_masteryScore au3 = None"
  "au_moveOn au1 = Some MoveOnCompletedAndPassed" "au_moveOn au2 = Some MoveOnCompleted"
  "au_moveOn au3 = Some MoveOnCompleted"
  "au_objectives au1 = [objective ''obj-1'' ''Master objective 1'' ''node-1'',
                        objective ''obj-2'' ''Master objective 2'' ''node-2'']"
  "au_objectives au2 = [objective ''obj-3'' ''Master objective 3'' ''node-3'']"
  "au_objectives au3 = [objective ''obj-4'' ''Master objective 4'' ''node-4'']"
  by (simp_all add: au1_def au2_def au3_def)

lemma au_criteria:
  "criterion (au_completionCriteria au1) cc_masteryScore = None"
  "criterion (au_completionCriteria au1) cc_masteryPercentage = Some 1"
  "criterion (au_completionCriteria au1) cc_minMasteredCount = None"
  "criterion (au_completionCriteria au1) cc_requireAllContent = None"
  "criterion (au_completionCriteria au1) cc_requireAllExercises = None"
  "criterion (au_completionCriteria au2) cc_masteryScore = None"
  "criterion (au_completionCriteria au2) cc_masteryPercentage = Some 1"
  "criterion (au_completionCriteria au2) cc_minMasteredCount = None"
  "criterion (au_completionCriteria au2) cc_requireAllContent = Some True"
  "criterion (au_completionCriteria au2) cc_requireAllExercises = None"
  "au_completionCriteria au3 = None"
  by (simp_all add: criterion_def au1_def au2_def au3_def no_criteria_def)

lemma progress_fields:
  "completed_units empty_progress = []" "completed_units progress_A = []"
  "cmi5State empty_progress = None" "lessonSignals empty_progress = None"
  "lessonSignals progress_A = None"
  by (simp_all add: completed_units_def empty_progress_def progress_A_def)

lemma objective_empty:
  "objectiveProgress (options eng3) None d (objective i ds n) =
     \<lparr>op_id = i, op_nodeId = Some n, op_kubitId = None, op_mastery = 0,
      op_masteryScore = 0.8, op_satisfied = False, op_attempts = 0, op_source = SourceNone\<rparr>"
  by (simp add: objectiveProgress_def Let_def resolve_no_states effectiveMasteryScore_def
        objective_def)

lemma objective_A:
  "objectiveProgress (options eng3)
      (Some [''obj-1'' \<mapsto> mastered_state ''obj-1'' ''node-1'',
             ''obj-2'' \<mapsto> mastered_state ''obj-2'' ''node-2'']) d
      (objective ''obj-1'' ds ''node-1'') =
     \<lparr>op_id = ''obj-1'', op_nodeId = Some ''node-1'', op_kubitId = None, op_mastery = 0.9,
      op_masteryScore = 0.8, op_satisfied = True, op_attempts = 1, op_source = SourceCmi5\<rparr>"
  "objectiveProgress (options eng3)
      (Some [''obj-1'' \<mapsto> mastered_state ''obj-1'' ''node-1'',
             ''obj-2'' \<mapsto> mastered_state ''obj-2'' ''node-2'']) d
      (objective ''obj-2'' ds ''node-2'') =
     \<lparr>op_id = ''obj-2'', op_nodeId = Some ''node-2'', op_kubitId = None, op_mastery = 0.9,
      op_masteryScore = 0.8, op_satisfied = True, op_attempts = 1, op_source = SourceCmi5\<rparr>"
  "objectiveProgress (options eng3)
      (Some [''obj-1'' \<mapsto> mastered_state ''obj-1'' ''node-1'',
             ''obj-2'' \<mapsto> mastered_state ''obj-2'' ''node-2'']) d
      (objective ''obj-3'' ds ''node-3'') =
     \<lparr>op_id = ''obj-3'', op_nodeId = Some ''node-3'', op_kubitId = None, op_mastery = 0,
      op_masteryScore = 0.8, op_satisfied = False, op_attempts = 0, op_source = SourceNone\<rparr>"
  "objectiveProgress (options eng3)
      (Some [''obj-1'' \<mapsto> mastered_state ''obj-1'' ''node-1'',
             ''obj-2'' \<mapsto> mastered_state ''obj-2'' ''node-2'']) d
      (objective ''obj-4'' ds ''node-4'') =
     \<lparr>op_id = ''obj-4'', op_nodeId = Some ''node-4'', op_kubitId = None, op_mastery = 0,
      op_masteryScore = 0.8, op_satisfied = False, op_attempts = 0, op_source = SourceNone\<rparr>"
  by (simp_all add: objectiveProgress_def Let_def resolveObjectiveState_def lookup_alternate_def
        effectiveMasteryScore_def objective_def mastered_state_def eng3_options)

lemma states_A:
  "(case cmi5State progress_A of None \<Rightarrow> None | Some st \<Rightarrow> Some (objectiveStates st)) =
     Some [''obj-1'' \<mapsto> mastered_state ''obj-1'' ''node-1'',
           ''obj-2'' \<mapsto> mastered_state ''obj-2'' ''node-2'']"
  "(case cmi5State progress_A of None \<Rightarrow> None | Some st \<Rightarrow> currentLesson (progress st)) = None"
  by (simp_all add: progress_A_def)

lemmas course3_simps =
  pass1_verdicts pass1_fields descriptor_fields au_fields progress_fields objective_empty
  objective_A states_A evaluateCompletionCriteria_isComplete completion_checks_eq
  constructed_checks_def au_criteria criterion_None masteryAverageOf_def passThresholdOf_def
  eng3_options signal_content_def signal_exercises_def

lemma verdicts_empty:
  "\<not> isComplete (completion (pass1 eng3 empty_progress (descriptor au1)))"
  "\<not> isComplete (completion (pass1 eng3 empty_progress (descriptor au2)))"
  "\<not> isComplete (completion (pass1 eng3 empty_progress (descriptor au3)))"
  "\<not> isPassed (pass (pass1 eng3 empty_progress (descriptor au1)))"
  "\<not> started (pass1 eng3 empty_progress (descriptor au1))"
  by (simp_all add: course3_simps)

lemma verdicts_A:
  "isComplete (completion (pass1 eng3 progress_A (descriptor au1)))"
  "\<not> isComplete (completion (pass1 eng3 progress_A (descriptor au2)))"
  "\<not> isComplete (completion (pass1 eng3 progress_A (descriptor au3)))"
  "isPassed (pass (pass1 eng3 progress_A (descriptor au1)))"
  "\<not> started (pass1 eng3 progress_A (descriptor au2))"
  by (simp_all add: course3_simps)

lemma eng3_ok: "index_ok (aus (index eng3))"
  unfolding eng3_def by (rule index_new)

lemma snapshot_statuses:
  assumes "index_ok (aus (index this))"
  shows "map (\<lambda>(k, e). (k, status e)) (snap_aus (evaluate this prog)) =
           map (\<lambda>(k, d). (k, derive_status
                  (filter (prerequisite_unmet (options this) (pass1_map this prog))
                     (d_prerequisites d) = [])
                  (pass1 this prog d)))
             (aus (index this))"
  by (simp add: evaluate_aus [OF assms] finalize_au_fields case_prod_unfold)

lemma snapshot_orders:
  assumes "index_ok (aus (index this))"
  shows "map (\<lambda>(k, e). ev_order e) (snap_aus (evaluate this prog)) =
           map (\<lambda>(k, d). d_order d) (aus (index this))"
  by (simp add: evaluate_aus [OF assms] finalize_au_def pass1_fields case_prod_unfold Let_def
        split: prod.splits)

lemma unmet_empty:
  "prerequisite_unmet (options eng3) (pass1_map eng3 empty_progress) ''au-1''"
  "prerequisite_unmet (options eng3) (pass1_map eng3 empty_progress) ''au-2''"
  by (simp_all add: prerequisite_unmet_def pass1_map_def eng3_index Map_get_def eng3_options
        verdicts_empty)

lemma unmet_A:
  "\<not> prerequisite_unmet (options eng3) (pass1_map eng3 progress_A) ''au-1''"
  "prerequisite_unmet (options eng3) (pass1_map eng3 progress_A) ''au-2''"
  by (simp_all add: prerequisite_unmet_def pass1_map_def eng3_index Map_get_def eng3_options
        verdicts_A)

lemma statuses_empty:
  "map (\<lambda>(k, e). (k, status e)) (snap_aus (evaluate eng3 empty_progress)) =
     [(''au-1'', Available), (''au-2'', Locked), (''au-3'', Locked)]"
  by (simp add: snapshot_statuses [OF eng3_ok] eng3_index descriptor_fields au_fields
        unmet_empty derive_status_def pass1_fields verdicts_empty)

lemma statuses_A:
  "map (\<lambda>(k, e). (k, status e)) (snap_aus (evaluate eng3 progress_A)) =
     [(''au-1'', Passed), (''au-2'', Available), (''au-3'', Locked)]"
  by (simp add: snapshot_statuses [OF eng3_ok] eng3_index descriptor_fields au_fields
        unmet_A derive_status_def pass1_fields verdicts_A)

lemma course_status_sorted:
  assumes "sorted (map (\<lambda>(k, e). ev_order e) (snap_aus (evaluate this prog)))"
  shows "cs_status (snap_course (evaluate this prog)) =
           aggregateStatus (map snd (map (\<lambda>(k, e). (k, status e)) (snap_aus (evaluate this prog))))"
proof -
  have "sorted (map ev_order (Map_values (snap_aus (evaluate this prog))))"
    using assms by (simp add: Map_values_def case_prod_unfold comp_def)
  then have "sort_key ev_order (Map_values (snap_aus (evaluate this prog)))
             = Map_values (snap_aus (evaluate this prog))"
    by (rule sort_key_id_if_sorted)
  then show ?thesis
    by (simp add: evaluate_course_status Map_values_def case_prod_unfold comp_def)
qed

lemma aggregate_examples:
  "aggregateStatus [Available, Locked, Locked] = Available"
  "aggregateStatus [Passed, Available, Locked] = InProgress"
  by (simp_all add: aggregateStatus_def Let_def)

lemma orders3:
  "map (\<lambda>(k, e). ev_order e) (snap_aus (evaluate eng3 prog)) = [1, 2, 3]"
  by (simp add: snapshot_orders [OF eng3_ok] eng3_index descriptor_fields au_fields)

theorem locked_iff_unmet_witness:
  "(\<exists>ev. (''au-2'', ev)
           \<in> set (snap_aus (evaluate (new_CMI5LearningEngine course3 default_options)
                               empty_progress))
         \<and> status ev = Locked \<and> unmetIds (prerequisites ev) \<noteq> [])
   \<and> (\<exists>ev. (''au-1'', ev)
           \<in> set (snap_aus (evaluate (new_CMI5LearningEngine course3 default_options)
                               empty_progress))
         \<and> status ev = Available \<and> unmetIds (prerequisites ev) = [])"
proof -
  let ?S = "snap_aus (evaluate (new_CMI5LearningEngine course3 default_options) empty_progress)"
  have "(''au-2'', Locked) \<in> set (map (\<lambda>(k, e). (k, status e)) ?S)"
    and "(''au-1'', Available) \<in> set (map (\<lambda>(k, e). (k, status e)) ?S)"
    by (simp_all add: statuses_empty [unfolded eng3_def])
  then obtain e2 e1 where e2: "(''au-2'', e2) \<in> set ?S" "status e2 = Locked"
    and e1: "(''au-1'', e1) \<in> set ?S" "status e1 = Available"
    by auto
  from locked_iff_unmet [OF e2(1), THEN conjunct1] e2(2) have "unmetIds (prerequisites e2) \<noteq> []" by simp
  moreover from locked_iff_unmet [OF e1(1), THEN conjunct1] e1(2) have "unmetIds (prerequisites e1) = []" by simp
  ultimately show ?thesis using e1 e2 by blast
qed

text \<open>
  Claim C2. The three-unit course A (no prerequisites, two objectives,
  masteryPercentage 1, CompletedAndPassed), B (prerequisite A, one objective,
  masteryPercentage 1, requireAllContent, Completed), C (prerequisite B, one objective,
  Completed) under the default options: with an empty progress snapshot A is available,
  B and C are locked and the course is available; once both objectives of A have
  mastery 0.9 and are satisfied, A is passed, B is available, C is locked and the course
  is in progress.
\<close>

theorem three_unit_chain:
  "map (\<lambda>(k, e). (k, status e))
     (snap_aus (evaluate (new_CMI5LearningEngine course3 default_options) empty_progress))
     = [(''au-1'', Available), (''au-2'', Locked), (''au-3'', Locked)]
   \<and> cs_status (snap_course
        (evaluate (new_CMI5LearningEngine course3 default_options) empty_progress)) = Available
   \<and> map (\<lambda>(k, e). (k, status e))
     (snap_aus (evaluate (new_CMI5LearningEngine course3 default_options) progress_A))
     = [(''au-1'', Passed), (''au-2'', Available), (''au-3'', Locked)]
   \<and> cs_status (snap_course
        (evaluate (new_CMI5LearningEngine course3 default_options) progress_A)) = InProgress"
proof -
  have s: "sorted (map (\<lambda>(k, e). ev_order e) (snap_aus (evaluate eng3 prog)))" for prog
    by (simp add: orders3)
  show ?thesis
    unfolding eng3_def [symmetric]
    by (simp add: statuses_empty statuses_A course_status_sorted [OF s] aggregate_examples)
qed

end
